theory Spec2Isabelle
  imports Complex_Main
begin

text \<open>
  A model of the price scraper: the text helpers, the two extractors (Puppeteer and
  FlareSolverr), the orchestrator that runs a batch of URLs, and the client that delivers
  the batch to the webhook. Pure code is a function of its arguments. The browser, the
  bypass service, the webhook and the progress callback are arguments too: for each call
  they say which step throws and what is returned, so that every \<open>try\<close> and \<open>catch\<close> of the
  program is a branch of the model.
\<close>

section \<open>JavaScript strings, numbers and regular expressions\<close>

text \<open>
  A JavaScript string is a sequence of UTF-16 code units; \<open>length\<close>, \<open>substring\<close> and the
  character classes of regular expressions all work on code units. The model keeps a string
  as the list of its code-unit values, so the currency signs U+20BA (lira) and U+20AC (euro)
  are single elements, as they are in the program.
\<close>

type_synonym jsstring = "nat list"

definition code :: "char \<Rightarrow> nat" where
  "code c = of_char c"

definition js :: "string \<Rightarrow> jsstring" where
  "js s = map code s"

definition LIRA :: nat where
  "LIRA = 8378"

definition EURO :: nat where
  "EURO = 8364"

definition isDigit :: "nat \<Rightarrow> bool" where
  "isDigit c = (48 \<le> c \<and> c \<le> 57)"

text \<open>The class \<open>\s\<close>, which is also the set of code units that \<open>trim()\<close> removes.\<close>

definition isSpace :: "nat \<Rightarrow> bool" where
  "isSpace c = (c = 9 \<or> c = 10 \<or> c = 11 \<or> c = 12 \<or> c = 13 \<or> c = 32 \<or> c = 160 \<or> c = 5760
     \<or> (8192 \<le> c \<and> c \<le> 8202) \<or> c = 8232 \<or> c = 8233 \<or> c = 8239 \<or> c = 8287
     \<or> c = 12288 \<or> c = 65279)"

text \<open>The class \<open>\w\<close>: ASCII letters, digits and the underscore.\<close>

definition isWord :: "nat \<Rightarrow> bool" where
  "isWord c = ((48 \<le> c \<and> c \<le> 57) \<or> (65 \<le> c \<and> c \<le> 90) \<or> (97 \<le> c \<and> c \<le> 122) \<or> c = 95)"

definition str_trim :: "jsstring \<Rightarrow> jsstring" where
  "str_trim s = rev (dropWhile isSpace (rev (dropWhile isSpace s)))"

text \<open>\<open>s.replace(/\s+/g, ' ')\<close>: every maximal run of whitespace becomes one space.\<close>

fun collapse_from :: "bool \<Rightarrow> jsstring \<Rightarrow> jsstring" where
  "collapse_from in_run [] = []"
| "collapse_from in_run (c # cs) =
     (if isSpace c
      then (if in_run then collapse_from True cs else 32 # collapse_from True cs)
      else c # collapse_from False cs)"

definition collapse_ws :: "jsstring \<Rightarrow> jsstring" where
  "collapse_ws s = collapse_from False s"

definition starts_with :: "jsstring \<Rightarrow> jsstring \<Rightarrow> bool" where
  "starts_with pat s = (take (length pat) s = pat)"

text \<open>\<open>s.replace(pat, rep)\<close> with a string pattern: only the first occurrence is replaced.\<close>

fun str_replace :: "jsstring \<Rightarrow> jsstring \<Rightarrow> jsstring \<Rightarrow> jsstring" where
  "str_replace pat rep [] = (if pat = [] then rep else [])"
| "str_replace pat rep (c # cs) =
     (if starts_with pat (c # cs) then rep @ drop (length pat) (c # cs)
      else c # str_replace pat rep cs)"

fun str_includes :: "jsstring \<Rightarrow> jsstring \<Rightarrow> bool" where
  "str_includes [] sub = (sub = [])"
| "str_includes (c # cs) sub = (starts_with sub (c # cs) \<or> str_includes cs sub)"

text \<open>\<open>s.split(sep)\<close> with a string separator.\<close>

function split_from :: "jsstring \<Rightarrow> jsstring \<Rightarrow> jsstring \<Rightarrow> jsstring list" where
  "split_from sep acc [] = [rev acc]"
| "split_from sep acc (c # cs) =
     (if sep \<noteq> [] \<and> starts_with sep (c # cs)
      then rev acc # split_from sep [] (drop (length sep) (c # cs))
      else split_from sep (c # acc) cs)"
  by pat_completeness auto
termination
  by (relation "measure (\<lambda>(sep, acc, s). length s)") auto

definition str_split :: "jsstring \<Rightarrow> jsstring \<Rightarrow> jsstring list" where
  "str_split s sep = (if sep = [] then map (\<lambda>c. [c]) s else split_from sep [] s)"

text \<open>
  A JavaScript number is kept as its exact value, or \<open>NaN\<close>. \<open>parseFloat\<close> reads the longest
  prefix \<open>digits [. digits]\<close> or \<open>. digits\<close>. The program only passes it strings made of
  digits, periods and commas, so the sign, exponent, leading whitespace and \<open>Infinity\<close> forms
  of the real function cannot occur; the rounding of the result to a double is not modelled.
\<close>

datatype jsnum = NaN | Num rat

definition digits_val :: "jsstring \<Rightarrow> nat" where
  "digits_val ds = foldl (\<lambda>a c. 10 * a + (c - 48)) 0 ds"

definition parseFloat :: "jsstring \<Rightarrow> jsnum" where
  "parseFloat s =
     (let ip = takeWhile isDigit s;
          rest = dropWhile isDigit s;
          fp = (case rest of [] \<Rightarrow> [] | c # r \<Rightarrow> if c = code CHR ''.'' then takeWhile isDigit r else [])
      in if ip = [] \<and> fp = [] then NaN
         else Num (of_nat (digits_val ip) + of_nat (digits_val fp) / 10 ^ length fp))"

text \<open>
  The regular expressions of the program use single characters, the classes \<open>\d\<close>, \<open>\s\<close>
  and \<open>[.,]\<close>, greedy \<open>+\<close> and \<open>*\<close> on a class, the greedy option \<open>?\<close>, sequence,
  alternation and one capture group whose text is read (\<open>match[1]\<close>). \<open>ChrI\<close> is a letter
  under the \<open>i\<close> flag. The matcher is the backtracking one of the language: it passes a
  continuation for the rest of the pattern and takes the first alternative that lets the
  whole pattern match.
\<close>

datatype cls = Digit | Space | OneOf jsstring

fun in_cls :: "cls \<Rightarrow> nat \<Rightarrow> bool" where
  "in_cls Digit c = isDigit c"
| "in_cls Space c = isSpace c"
| "in_cls (OneOf cs) c = (c \<in> set cs)"

datatype rx = Chr nat | ChrI nat | Cls cls | Star cls | Plus cls | Opt rx | Seq rx rx | Alt rx rx | Grp rx

definition upperAscii :: "nat \<Rightarrow> nat" where
  "upperAscii c = (if 97 \<le> c \<and> c \<le> 122 then c - 32 else c)"

definition lowerAscii :: "nat \<Rightarrow> nat" where
  "lowerAscii c = (if 65 \<le> c \<and> c \<le> 90 then c + 32 else c)"

fun many :: "cls \<Rightarrow> jsstring \<Rightarrow> (jsstring \<Rightarrow> 'r option) \<Rightarrow> 'r option" where
  "many c [] k = k []"
| "many c (x # xs) k =
     (if in_cls c x
      then (case many c xs k of Some r \<Rightarrow> Some r | None \<Rightarrow> k (x # xs))
      else k (x # xs))"

fun rx_match :: "rx \<Rightarrow> jsstring \<Rightarrow> jsstring option
    \<Rightarrow> (jsstring \<Rightarrow> jsstring option \<Rightarrow> 'r option) \<Rightarrow> 'r option" where
  "rx_match (Chr c) s cap k =
     (case s of [] \<Rightarrow> None | x # xs \<Rightarrow> if x = c then k xs cap else None)"
| "rx_match (ChrI c) s cap k =
     (case s of [] \<Rightarrow> None | x # xs \<Rightarrow> if upperAscii x = upperAscii c then k xs cap else None)"
| "rx_match (Cls c) s cap k =
     (case s of [] \<Rightarrow> None | x # xs \<Rightarrow> if in_cls c x then k xs cap else None)"
| "rx_match (Star c) s cap k = many c s (\<lambda>s'. k s' cap)"
| "rx_match (Plus c) s cap k =
     (case s of [] \<Rightarrow> None | x # xs \<Rightarrow> if in_cls c x then many c xs (\<lambda>s'. k s' cap) else None)"
| "rx_match (Opt r) s cap k =
     (case rx_match r s cap k of Some v \<Rightarrow> Some v | None \<Rightarrow> k s cap)"
| "rx_match (Seq a b) s cap k = rx_match a s cap (\<lambda>s' cap'. rx_match b s' cap' k)"
| "rx_match (Alt a b) s cap k =
     (case rx_match a s cap k of Some v \<Rightarrow> Some v | None \<Rightarrow> rx_match b s cap k)"
| "rx_match (Grp r) s cap k =
     rx_match r s cap (\<lambda>s' cap'. k s' (Some (take (length s - length s') s)))"

record rmatch =
  whole :: jsstring
  group1 :: "jsstring option"

text \<open>
  \<open>regex.exec(s)\<close> on a fresh regular expression, and \<open>s.match(regex)\<close> without the \<open>g\<close>
  flag: the match at the leftmost position where the pattern matches.
\<close>

definition matched :: "jsstring \<Rightarrow> jsstring \<Rightarrow> jsstring option \<Rightarrow> rmatch option" where
  "matched s rest cap = Some \<lparr>whole = take (length s - length rest) s, group1 = cap\<rparr>"

fun rx_exec :: "rx \<Rightarrow> jsstring \<Rightarrow> rmatch option" where
  "rx_exec r [] = rx_match r [] None (matched [])"
| "rx_exec r (x # xs) =
     (case rx_match r (x # xs) None (matched (x # xs)) of
        Some m \<Rightarrow> Some m
      | None \<Rightarrow> rx_exec r xs)"

definition seqs :: "rx list \<Rightarrow> rx" where
  "seqs rs = foldr Seq (butlast rs) (last rs)"

definition lit_i :: "string \<Rightarrow> rx" where
  "lit_i s = seqs (map (\<lambda>c. ChrI (code c)) s)"

text \<open>The number of every price pattern: \<open>(\d+(?:[.,]\d+)?)\<close>.\<close>

definition number_rx :: rx where
  "number_rx = Grp (Seq (Plus Digit) (Opt (Seq (Cls (OneOf (js ''.,''))) (Plus Digit))))"


section \<open>Text helpers (utils/helpers)\<close>

text \<open>
  What the program takes from its platform: the host name of \<open>new URL(url)\<close>, or \<open>None\<close>
  when the constructor throws, and \<open>toLowerCase\<close>.
\<close>

record platform =
  URL_hostname :: "jsstring \<Rightarrow> jsstring option"
  toLowerCase :: "jsstring \<Rightarrow> jsstring"

definition extractDomain :: "platform \<Rightarrow> jsstring \<Rightarrow> jsstring" where
  "extractDomain pf url =
     (case URL_hostname pf url of
        None \<Rightarrow> []
      | Some hostname \<Rightarrow> str_replace (js ''www.'') [] hostname)"

definition gameKeywords :: "(jsstring \<times> jsstring list) list" where
  "gameKeywords =
    [(js ''pubg'', [js ''pubg'', js ''mobile'', js ''uc'']),
     (js ''mobile-legends'', [js ''mobile'', js ''legends'', js ''mlbb'', js ''elmas'']),
     (js ''valorant'', [js ''valorant'', js ''vp'', js ''points'']),
     (js ''lol'', [js ''lol'', js ''league'', js ''legends'', js ''rp'', js ''riot'']),
     (js ''free-fire'', [js ''free'', js ''fire'', js ''garena'']),
     (js ''genshin-impact'', [js ''genshin'', js ''impact'', js ''genesis'']),
     (js ''honor-of-kings'', [js ''honor'', js ''kings'', js ''jeton'']),
     (js ''roblox'', [js ''roblox'', js ''robux'']),
     (js ''steam'', [js ''steam'', js ''wallet'', js ''cuzdan'']),
     (js ''razer-gold'', [js ''razer'', js ''gold''])]"

definition extractGameSlug :: "platform \<Rightarrow> jsstring \<Rightarrow> jsstring \<Rightarrow> jsstring" where
  "extractGameSlug pf url title =
     (let urlLower = toLowerCase pf url;
          titleLower = toLowerCase pf title;
          combined = urlLower @ js '' '' @ titleLower
      in case List.find (\<lambda>(slug, keywords). list_ex (\<lambda>keyword. str_includes combined keyword) keywords)
                gameKeywords of
           Some (slug, keywords) \<Rightarrow> slug
         | None \<Rightarrow> js ''unknown'')"

record parsed_price =
  pp_price :: jsnum
  pp_currency :: jsstring

text \<open>The nine patterns of \<open>parsePrice\<close>, in the order of the source.\<close>

definition price_patterns :: "(rx \<times> jsstring) list" where
  "price_patterns =
    [(seqs [number_rx, Star Space, Chr LIRA], js ''TRY''),
     (seqs [Chr LIRA, Star Space, number_rx], js ''TRY''),
     (seqs [number_rx, Star Space, lit_i ''TL''], js ''TRY''),
     (seqs [lit_i ''TL'', Star Space, number_rx], js ''TRY''),
     (seqs [number_rx, Star Space, Chr (code CHR ''$'')], js ''USD''),
     (seqs [Chr (code CHR ''$''), Star Space, number_rx], js ''USD''),
     (seqs [number_rx, Star Space, Chr EURO], js ''EUR''),
     (seqs [Chr EURO, Star Space, number_rx], js ''EUR''),
     (number_rx, js ''TRY'')]"

fun first_price :: "(rx \<times> jsstring) list \<Rightarrow> jsstring \<Rightarrow> parsed_price" where
  "first_price [] cleaned = \<lparr>pp_price = Num 0, pp_currency = js ''TRY''\<rparr>"
| "first_price ((regex, currency) # patterns) cleaned =
     (case rx_exec regex cleaned of
        None \<Rightarrow> first_price patterns cleaned
      | Some m \<Rightarrow>
          (case group1 m of
             None \<Rightarrow> first_price patterns cleaned
           | Some g \<Rightarrow>
               if g = [] then first_price patterns cleaned
               else \<lparr>pp_price = parseFloat (str_replace (js '','') (js ''.'') g),
                     pp_currency = currency\<rparr>))"

definition parsePrice :: "jsstring \<Rightarrow> parsed_price" where
  "parsePrice priceText =
     (if priceText = [] then \<lparr>pp_price = Num 0, pp_currency = js ''TRY''\<rparr>
      else let cleaned = str_trim (collapse_ws priceText)
           in first_price price_patterns cleaned)"

fun num_gt :: "jsnum \<Rightarrow> rat \<Rightarrow> bool" where
  "num_gt NaN b = False"
| "num_gt (Num a) b = (a > b)"

fun num_lt :: "jsnum \<Rightarrow> rat \<Rightarrow> bool" where
  "num_lt NaN b = False"
| "num_lt (Num a) b = (a < b)"

fun isNaN :: "jsnum \<Rightarrow> bool" where
  "isNaN NaN = True"
| "isNaN (Num a) = False"

definition isValidPrice :: "jsnum \<Rightarrow> bool" where
  "isValidPrice price = (num_gt price 0 \<and> num_lt price 1000000 \<and> \<not> isNaN price)"

definition whitelisted :: "nat \<Rightarrow> bool" where
  "whitelisted c = (isWord c \<or> isSpace c \<or> c = code CHR ''-'' \<or> c = code CHR ''_''
     \<or> c = code CHR ''.'' \<or> c = LIRA \<or> c = code CHR ''$'' \<or> c = EURO)"

definition sanitizeText :: "jsstring \<Rightarrow> jsstring" where
  "sanitizeText text = str_trim (filter whitelisted (collapse_ws text))"

section \<open>Data model (types)\<close>

record ScrapedItem =
  item_title :: jsstring
  item_price :: jsstring
  item_originalPrice :: "jsstring option"
  item_currency :: jsstring
  item_region :: jsstring
  item_url :: jsstring
  item_siteName :: jsstring
  item_gameSlug :: "jsstring option"

record selectors =
  sel_container :: jsstring
  sel_title :: jsstring
  sel_price :: jsstring
  sel_originalPrice :: "jsstring option"
  sel_currency :: "jsstring option"

record SiteConfig =
  cfg_name :: jsstring
  cfg_domain :: jsstring
  cfg_selectors :: selectors
  waitFor :: "jsstring option"
  delay :: "nat option"
  maxRetries :: "nat option"
  requiresJS :: "bool option"

text \<open>
  \<open>SITE_CONFIGS\<close> is a plain object, so \<open>SITE_CONFIGS[domain]\<close> finds the profile registered
  under \<open>domain\<close>, or else the member of that name that every object inherits from
  \<open>Object.prototype\<close>, or else nothing. An inherited member is a function (for
  \<open>__proto__\<close> the prototype itself): it is truthy, and it has no \<open>selectors\<close> and no
  \<open>waitFor\<close>. A scraper keeps whatever configuration it is given.
\<close>

definition Object_prototype_keys :: "jsstring list" where
  "Object_prototype_keys =
     [js ''constructor'', js ''__defineGetter__'', js ''__defineSetter__'', js ''hasOwnProperty'',
      js ''__lookupGetter__'', js ''__lookupSetter__'', js ''isPrototypeOf'',
      js ''propertyIsEnumerable'', js ''toString'', js ''valueOf'', js ''__proto__'',
      js ''toLocaleString'']"

datatype config_value = Profile SiteConfig | Inherited jsstring

record ScrapingResult =
  success :: bool
  url :: jsstring
  items :: "ScrapedItem list"
  error :: "jsstring option"
  responseTime :: int
  siteName :: jsstring

type_synonym jsdate = int

record BatchResult =
  batchId :: jsstring
  timestamp :: jsdate
  totalUrls :: nat
  successCount :: nat
  failedCount :: nat
  results :: "ScrapingResult list"
  totalItems :: nat
  errors :: "jsstring list"

record ScrapedPrice =
  sp_price :: jsnum
  sp_currency :: jsstring
  sp_region :: jsstring
  sp_product_name :: jsstring
  sp_url :: jsstring
  sp_batch_timestamp :: jsdate

record metadata =
  m_totalUrls :: nat
  m_successCount :: nat
  m_failedCount :: nat
  m_totalItems :: nat

record N8NWebhookPayload =
  p_batchId :: jsstring
  p_timestamp :: jsdate
  p_items :: "ScrapedPrice list"
  p_metadata :: metadata

text \<open>The two domains of \<open>FLARESOLVERR_REQUIRED_DOMAINS\<close>.\<close>

definition FLARESOLVERR_REQUIRED_DOMAINS :: "jsstring set" where
  "FLARESOLVERR_REQUIRED_DOMAINS = {js ''oyuneks.com'', js ''liderepin.com''}"

section \<open>Exceptions and the page\<close>

text \<open>
  A thrown value is an \<open>Error\<close> with its message, or some other value. Every handler of the
  program reads it through \<open>error instanceof Error ? error.message : fallback\<close>.
\<close>

datatype thrown = Error jsstring | NonError

fun message_or :: "jsstring \<Rightarrow> thrown \<Rightarrow> jsstring" where
  "message_or fallback (Error msg) = msg"
| "message_or fallback NonError = fallback"

text \<open>The \<open>TypeError\<close> of reading a property of \<open>undefined\<close>.\<close>

definition TypeError_reading :: "string \<Rightarrow> thrown" where
  "TypeError_reading prop =
     Error (js ''Cannot read properties of undefined (reading '' @ [39] @ js prop @ [39] @ js '')'')"

text \<open>
  An element answers \<open>querySelector\<close> (cheerio: \<open>find(sel).first()\<close>) with an exception for
  a selector it cannot parse, with nothing, or with the text content of the first match; it
  has a text content of its own and attributes. A document answers \<open>querySelectorAll\<close>
  (cheerio: \<open>$(sel)\<close>) with an exception or the matching elements in document order.
\<close>

record element =
  el_query :: "jsstring \<Rightarrow> thrown + jsstring option"
  el_text :: jsstring
  el_attr :: "jsstring \<Rightarrow> jsstring option"

record document =
  doc_query :: "jsstring \<Rightarrow> thrown + element list"


section \<open>The rendering extractor (scrapers/puppeteer-scraper)\<close>

subsection \<open>The helpers recreated inside the page\<close>

definition inpage_sanitizeText :: "jsstring \<Rightarrow> jsstring" where
  "inpage_sanitizeText text = take 200 (str_trim (collapse_ws text))"

definition inpage_parsePrice :: "platform \<Rightarrow> jsstring \<Rightarrow> parsed_price" where
  "inpage_parsePrice pf priceText =
     \<lparr>pp_price = parseFloat (str_replace (js '','') (js ''.'')
                   (filter (\<lambda>c. isDigit c \<or> c = code CHR ''.'' \<or> c = code CHR '','') priceText)),
      pp_currency = (if str_includes (toLowerCase pf priceText) (js ''usd'') then js ''USD''
                     else if str_includes (toLowerCase pf priceText) (js ''eur'') then js ''EUR''
                     else js ''TRY'')\<rparr>"

definition inpage_isValidPrice :: "jsnum \<Rightarrow> bool" where
  "inpage_isValidPrice price = (\<not> isNaN price \<and> num_gt price 0 \<and> num_lt price 1000000)"

definition inpage_detectRegion :: "platform \<Rightarrow> jsstring \<Rightarrow> jsstring \<Rightarrow> jsstring" where
  "inpage_detectRegion pf u t =
     (if str_includes u (js ''global'') \<or> str_includes (toLowerCase pf t) (js ''global'')
      then js ''Global''
      else if str_includes u (js ''eu'') \<or> str_includes u (js ''europe'')
              \<or> str_includes (toLowerCase pf t) (js ''eu'')
      then js ''EU''
      else if str_includes u (js ''na'') \<or> str_includes u (js ''america'')
              \<or> str_includes (toLowerCase pf t) (js ''na'')
      then js ''US''
      else js ''TR'')"

definition inpage_extractGameSlug :: "platform \<Rightarrow> jsstring \<Rightarrow> jsstring \<Rightarrow> jsstring" where
  "inpage_extractGameSlug pf u t =
     (if str_includes u (js ''pubg'') \<or> str_includes (toLowerCase pf t) (js ''pubg'')
      then js ''pubg''
      else if str_includes u (js ''lol'') \<or> str_includes u (js ''legends'')
              \<or> str_includes (toLowerCase pf t) (js ''legends'')
      then js ''lol''
      else if str_includes u (js ''valorant'') \<or> str_includes (toLowerCase pf t) (js ''valorant'')
      then js ''valorant''
      else if str_includes u (js ''mobile-legends'')
              \<or> str_includes (toLowerCase pf t) (js ''mobile legends'')
      then js ''mobile-legends''
      else if str_includes u (js ''fire'') \<or> str_includes (toLowerCase pf t) (js ''fire'')
      then js ''free-fire''
      else js ''unknown'')"

subsection \<open>Extraction inside the page\<close>

text \<open>
  The loop over a selector list of one container: the trimmed text of the first selector
  whose first match has text that is not blank, the empty string when there is none.
  A selector that cannot be parsed throws.
\<close>

fun first_text :: "element \<Rightarrow> jsstring list \<Rightarrow> thrown + jsstring" where
  "first_text el [] = Inr []"
| "first_text el (sel # sels) =
     (case el_query el sel of
        Inl e \<Rightarrow> Inl e
      | Inr None \<Rightarrow> first_text el sels
      | Inr (Some text) \<Rightarrow>
          if text \<noteq> [] \<and> str_trim text \<noteq> [] then Inr (str_trim text) else first_text el sels)"

text \<open>
  The fallback pattern on the text of a container: a number, optional whitespace and one of
  tl, the lira sign, try, usd, eur, under the \<open>i\<close> flag. Its second group is never read.
\<close>

definition fallback_rx :: rx where
  "fallback_rx = seqs [number_rx, Star Space,
     Alt (lit_i ''tl'') (Alt (Chr LIRA) (Alt (lit_i ''try'') (Alt (lit_i ''usd'') (lit_i ''eur''))))]"

text \<open>
  The first part of the \<open>try\<close> that handles one container: the title and the price text
  it derives, from the selectors of the profile and, when one of the two is still empty,
  from the fallback pattern on the text of the container. Reading the first piece of a
  split that has no piece throws.
\<close>

definition inpage_title_price :: "SiteConfig \<Rightarrow> element \<Rightarrow> thrown + (jsstring \<times> jsstring)" where
  "inpage_title_price config el =
     (case first_text el (str_split (sel_title (cfg_selectors config)) (js '', '')) of
        Inl e \<Rightarrow> Inl e
      | Inr title0 \<Rightarrow>
     (case first_text el (str_split (sel_price (cfg_selectors config)) (js '', '')) of
        Inl e \<Rightarrow> Inl e
      | Inr priceText0 \<Rightarrow>
          if title0 = [] \<or> priceText0 = []
          then (case rx_exec fallback_rx (el_text el) of
                  None \<Rightarrow> Inr (title0, priceText0)
                | Some priceMatch \<Rightarrow>
                    if title0 = []
                    then (case str_split (el_text el) (whole priceMatch) of
                            [] \<Rightarrow> Inl (TypeError_reading ''trim'')
                          | piece # pieces \<Rightarrow> Inr (take 100 (str_trim piece), whole priceMatch))
                    else Inr (title0, whole priceMatch))
          else Inr (title0, priceText0)))"

text \<open>
  The body of the \<open>try\<close> that handles one container: \<open>Inl\<close> when it throws, \<open>Inr None\<close>
  when it pushes nothing, \<open>Inr (Some item)\<close> when it pushes \<open>item\<close>.
\<close>

definition inpage_container :: "platform \<Rightarrow> SiteConfig \<Rightarrow> jsstring \<Rightarrow> jsstring \<Rightarrow> element
    \<Rightarrow> thrown + ScrapedItem option" where
  "inpage_container pf config u d el =
     (case inpage_title_price config el of
        Inl e \<Rightarrow> Inl e
      | Inr (title1, priceText) \<Rightarrow>
          if title1 \<noteq> [] \<and> priceText \<noteq> [] \<and> length title1 > 3
          then (let parsed = inpage_parsePrice pf priceText
                in if inpage_isValidPrice (pp_price parsed)
                   then Inr (Some \<lparr>item_title = inpage_sanitizeText title1,
                                    item_price = priceText,
                                    item_originalPrice = None,
                                    item_currency = pp_currency parsed,
                                    item_region = inpage_detectRegion pf u title1,
                                    item_url = u,
                                    item_siteName = d,
                                    item_gameSlug = Some (inpage_extractGameSlug pf u title1)\<rparr>)
                   else Inr None)
          else Inr None)"

text \<open>
  \<open>containers.forEach((container, index) => ...)\<close>: a container whose index is above 50
  returns at once; an exception of the body is caught and ignored.
\<close>

fun forEach_containers :: "platform \<Rightarrow> SiteConfig \<Rightarrow> jsstring \<Rightarrow> jsstring \<Rightarrow> element list
    \<Rightarrow> nat \<Rightarrow> ScrapedItem list \<Rightarrow> ScrapedItem list" where
  "forEach_containers pf config u d [] index res = res"
| "forEach_containers pf config u d (el # els) index res =
     forEach_containers pf config u d els (Suc index)
       (if index > 50 then res
        else (case inpage_container pf config u d el of
                Inr (Some item) \<Rightarrow> res @ [item]
              | Inr None \<Rightarrow> res
              | Inl e \<Rightarrow> res))"

text \<open>
  The loop over the container selectors: a selector with no match is passed over, the
  containers of the others are handled, and the loop ends once there are results.
\<close>

fun container_loop :: "platform \<Rightarrow> SiteConfig \<Rightarrow> jsstring \<Rightarrow> jsstring \<Rightarrow> document
    \<Rightarrow> jsstring list \<Rightarrow> ScrapedItem list \<Rightarrow> thrown + ScrapedItem list" where
  "container_loop pf config u d doc [] res = Inr res"
| "container_loop pf config u d doc (containerSel # sels) res =
     (case doc_query doc containerSel of
        Inl e \<Rightarrow> Inl e
      | Inr containers \<Rightarrow>
          if length containers = 0 then container_loop pf config u d doc sels res
          else (let res' = forEach_containers pf config u d containers 0 res
                in if length res' > 0 then Inr res'
                   else container_loop pf config u d doc sels res'))"

definition inpage_extract :: "platform \<Rightarrow> SiteConfig \<Rightarrow> jsstring \<Rightarrow> jsstring \<Rightarrow> document
    \<Rightarrow> thrown + ScrapedItem list" where
  "inpage_extract pf config u d doc =
     container_loop pf config u d doc (str_split (sel_container (cfg_selectors config)) (js '', '')) []"

subsection \<open>One scrape\<close>

text \<open>
  What the browser does during one scrape, as far as the result depends on it: whether the
  launch, the opening and preparation of the page, the first navigation, the fallback
  navigation and the waits after it throw; whether \<open>page.evaluate\<close> fails or runs the
  extraction on a document; whether closing the page or the browser throws; the elapsed
  time.
\<close>

record puppeteer_session =
  p_launch :: "thrown option"
  p_open :: "thrown option"
  p_goto :: "thrown option"
  p_goto_fallback :: "thrown option"
  p_settle :: "thrown option"
  p_evaluate :: "thrown + document"
  p_page_close :: "thrown option"
  p_browser_close :: "thrown option"
  p_elapsed :: int

text \<open>
  \<open>extractItems\<close> runs the extraction inside the page and turns every exception into the
  empty list. With a configuration that is not a profile the function inside the page
  throws as soon as it reads \<open>config.selectors.container\<close>: an inherited function reaches
  the page as \<open>undefined\<close>, and the inherited object \<open>__proto__\<close> as an object without
  \<open>selectors\<close>.
\<close>

definition inpage_function :: "platform \<Rightarrow> config_value \<Rightarrow> jsstring \<Rightarrow> jsstring \<Rightarrow> document
    \<Rightarrow> thrown + ScrapedItem list" where
  "inpage_function pf cfg u d doc =
     (case cfg of
        Inherited k \<Rightarrow>
          Inl (TypeError_reading (if k = js ''__proto__'' then ''container'' else ''selectors''))
      | Profile config \<Rightarrow> inpage_extract pf config u d doc)"

definition extractItems :: "platform \<Rightarrow> config_value \<Rightarrow> puppeteer_session \<Rightarrow> jsstring
    \<Rightarrow> ScrapedItem list" where
  "extractItems pf cfg ses u =
     (let d = extractDomain pf u
      in case p_evaluate ses of
           Inl e \<Rightarrow> []
         | Inr doc \<Rightarrow> (case inpage_function pf cfg u d doc of Inl e \<Rightarrow> [] | Inr its \<Rightarrow> its))"

text \<open>The \<open>try\<close> block of \<open>scrapeUrl\<close>: \<open>Inl\<close> when an exception leaves it.\<close>

definition puppeteer_try :: "platform \<Rightarrow> config_value \<Rightarrow> puppeteer_session \<Rightarrow> jsstring
    \<Rightarrow> thrown + ScrapingResult" where
  "puppeteer_try pf cfg ses u =
     (case p_launch ses of Some e \<Rightarrow> Inl e | None \<Rightarrow>
     (case p_open ses of Some e \<Rightarrow> Inl e | None \<Rightarrow>
     (case (case p_goto ses of None \<Rightarrow> None | Some navigationError \<Rightarrow> p_goto_fallback ses) of
        Some e \<Rightarrow> Inl e | None \<Rightarrow>
     (case p_settle ses of Some e \<Rightarrow> Inl e | None \<Rightarrow>
        (let its = extractItems pf cfg ses u
         in case p_page_close ses of
              Some e \<Rightarrow> Inl e
            | None \<Rightarrow>
                Inr \<lparr>success = (length its > 0),
                     url = u,
                     items = its,
                     error = (if length its = 0 then Some (js ''No items found with Puppeteer'') else None),
                     responseTime = p_elapsed ses,
                     siteName = extractDomain pf u\<rparr>)))))"

definition PuppeteerScraper_scrapeUrl :: "platform \<Rightarrow> config_value \<Rightarrow> puppeteer_session \<Rightarrow> jsstring
    \<Rightarrow> ScrapingResult" where
  "PuppeteerScraper_scrapeUrl pf cfg ses u =
     (case puppeteer_try pf cfg ses u of
        Inr result \<Rightarrow> result
      | Inl e \<Rightarrow>
          \<lparr>success = False,
           url = u,
           items = [],
           error = Some (message_or (js ''Unknown Puppeteer error'') e),
           responseTime = p_elapsed ses,
           siteName = extractDomain pf u\<rparr>)"

text \<open>\<open>close()\<close> closes the browser when there is one, that is when the launch went through.\<close>

definition PuppeteerScraper_close :: "puppeteer_session \<Rightarrow> thrown option" where
  "PuppeteerScraper_close ses = (case p_launch ses of Some e \<Rightarrow> None | None \<Rightarrow> p_browser_close ses)"

section \<open>The bypass extractor (scrapers/flaresolverr-scraper)\<close>

text \<open>
  The answer of the bypass service to \<open>request.get\<close>: its status, its message as the error
  text prints it, and the document that cheerio loads from \<open>solution.response\<close> (or the
  exception of reading and loading it). A session holds whether creating the session threw
  (the program swallows that), the request's exception or answer, and the elapsed time.
\<close>

record flare_response =
  f_status :: jsstring
  f_message :: jsstring
  f_solution :: "thrown + document"

record flare_session =
  f_session_create :: "thrown option"
  f_request :: "thrown + flare_response"
  f_elapsed :: int

fun first_truthy :: "jsstring option list \<Rightarrow> jsstring" where
  "first_truthy [] = []"
| "first_truthy (None # rest) = first_truthy rest"
| "first_truthy (Some s # rest) = (if s \<noteq> [] then s else first_truthy rest)"

definition flare_container :: "platform \<Rightarrow> SiteConfig \<Rightarrow> jsstring \<Rightarrow> jsstring \<Rightarrow> element
    \<Rightarrow> thrown + ScrapedItem option" where
  "flare_container pf config u d el =
     (case first_text el (map str_trim (str_split (sel_title (cfg_selectors config)) (js '',''))) of
        Inl e \<Rightarrow> Inl e
      | Inr title0 \<Rightarrow>
          let title1 = (if title0 = []
                        then str_trim (first_truthy [el_attr el (js ''title''), el_attr el (js ''alt''),
                                                     el_attr el (js ''data-title'')])
                        else title0)
          in (case first_text el (map str_trim (str_split (sel_price (cfg_selectors config)) (js '',''))) of
                Inl e \<Rightarrow> Inl e
              | Inr priceText \<Rightarrow>
                  if title1 = [] \<or> priceText = [] then Inr None
                  else (let priceResult = parsePrice priceText
                        in if \<not> isValidPrice (pp_price priceResult) then Inr None
                           else Inr (Some \<lparr>item_title = sanitizeText title1,
                                            item_price = priceText,
                                            item_originalPrice = None,
                                            item_currency = pp_currency priceResult,
                                            item_region = js ''TR'',
                                            item_url = u,
                                            item_siteName = d,
                                            item_gameSlug = Some (extractGameSlug pf u title1)\<rparr>))))"

fun flare_each :: "platform \<Rightarrow> SiteConfig \<Rightarrow> jsstring \<Rightarrow> jsstring \<Rightarrow> element list
    \<Rightarrow> ScrapedItem list \<Rightarrow> ScrapedItem list" where
  "flare_each pf config u d [] its = its"
| "flare_each pf config u d (el # els) its =
     flare_each pf config u d els
       (case flare_container pf config u d el of
          Inr (Some item) \<Rightarrow> its @ [item]
        | Inr None \<Rightarrow> its
        | Inl e \<Rightarrow> its)"

text \<open>
  The \<open>try\<close> block of \<open>scrapeUrl\<close>. With a configuration that is not a profile, reading
  \<open>this.config.selectors.container\<close> throws once the page is loaded.
\<close>

definition flare_try :: "platform \<Rightarrow> config_value \<Rightarrow> flare_session \<Rightarrow> jsstring
    \<Rightarrow> thrown + ScrapingResult" where
  "flare_try pf cfg ses u =
     (case f_request ses of
        Inl e \<Rightarrow> Inl e
      | Inr flareResponse \<Rightarrow>
          if f_status flareResponse \<noteq> js ''ok''
          then Inl (Error (js ''FlareSolverr error: '' @ f_message flareResponse))
          else (case f_solution flareResponse of
                  Inl e \<Rightarrow> Inl e
                | Inr doc \<Rightarrow>
                    (case cfg of
                       Inherited k \<Rightarrow> Inl (TypeError_reading ''container'')
                     | Profile config \<Rightarrow>
                         (case doc_query doc (sel_container (cfg_selectors config)) of
                            Inl e \<Rightarrow> Inl e
                          | Inr els \<Rightarrow>
                              Inr \<lparr>success = True,
                                   url = u,
                                   items = flare_each pf config u (extractDomain pf u) els [],
                                   error = None,
                                   responseTime = f_elapsed ses,
                                   siteName = extractDomain pf u\<rparr>))))"

definition FlareSolverrScraper_scrapeUrl :: "platform \<Rightarrow> config_value \<Rightarrow> flare_session \<Rightarrow> jsstring
    \<Rightarrow> ScrapingResult" where
  "FlareSolverrScraper_scrapeUrl pf cfg ses u =
     (case flare_try pf cfg ses u of
        Inr result \<Rightarrow> result
      | Inl err \<Rightarrow>
          \<lparr>success = False,
           url = u,
           items = [],
           error = Some (message_or (js ''Unknown error'') err),
           responseTime = f_elapsed ses,
           siteName = extractDomain pf u\<rparr>)"


section \<open>The orchestrator (http-orchestrator)\<close>

definition getGenericConfig :: "jsstring \<Rightarrow> SiteConfig" where
  \<open>getGenericConfig d =
     \<lparr>cfg_name = d,
      cfg_domain = d,
      cfg_selectors =
        \<lparr>sel_container = js ''.product, .item, .card, .product-item, div, article, section, tr'',
         sel_title = js ''.title, .name, .product-title, .product-name, h1, h2, h3, h4, h5, [class*="product"], [class*="title"], [class*="name"]'',
         sel_price = js ''.price, .cost, .amount, .product-price, [class*="price"], [class*="fiyat"], [class*="cost"], span, div, td'',
         sel_originalPrice = Some (js ''.old-price, .original-price, .was-price''),
         sel_currency = None\<rparr>,
      waitFor = None,
      delay = Some 1000,
      maxRetries = Some 3,
      requiresJS = Some False\<rparr>\<close>

text \<open>
  The profiles of the table \<open>SITE_CONFIGS\<close> are a parameter: a map from the registered
  domains (the keys the object has of its own) to their profiles. \<open>SITE_CONFIGS[domain]\<close>
  is the profile of the domain, or the inherited member of that name, or undefined.
\<close>

definition lookup_config :: "(jsstring \<rightharpoonup> SiteConfig) \<Rightarrow> jsstring \<Rightarrow> config_value option" where
  "lookup_config SITE_CONFIGS d =
     (case SITE_CONFIGS d of
        Some c \<Rightarrow> Some (Profile c)
      | None \<Rightarrow> if d \<in> set Object_prototype_keys then Some (Inherited d) else None)"

text \<open>
  The scraper object that \<open>scrapeUrlHttp\<close> builds for a URL: its class and the configuration
  it is given, \<open>SITE_CONFIGS[domain] || this.getGenericConfig(domain)\<close>.
\<close>

datatype scraper = FlareSolverrScraper config_value | PuppeteerScraper config_value

definition new_scraper :: "platform \<Rightarrow> (jsstring \<rightharpoonup> SiteConfig) \<Rightarrow> jsstring \<Rightarrow> scraper" where
  "new_scraper pf SITE_CONFIGS u =
     (let d = extractDomain pf u;
          config = (case lookup_config SITE_CONFIGS d of
                      Some c \<Rightarrow> c
                    | None \<Rightarrow> Profile (getGenericConfig d))
      in if d \<in> FLARESOLVERR_REQUIRED_DOMAINS then FlareSolverrScraper config
         else PuppeteerScraper config)"

text \<open>What the outside world does while one URL is handled, for either scraper.\<close>

record site_run =
  w_puppeteer :: puppeteer_session
  w_flare :: flare_session

text \<open>The \<open>try\<close> block of \<open>scrapeUrlHttp\<close>, and the method with its handler.\<close>

definition scrapeUrlHttp_try :: "platform \<Rightarrow> (jsstring \<rightharpoonup> SiteConfig) \<Rightarrow> site_run \<Rightarrow> jsstring
    \<Rightarrow> thrown + ScrapingResult" where
  "scrapeUrlHttp_try pf SITE_CONFIGS run u =
     (case new_scraper pf SITE_CONFIGS u of
        FlareSolverrScraper config \<Rightarrow>
          Inr (FlareSolverrScraper_scrapeUrl pf config (w_flare run) u)
      | PuppeteerScraper config \<Rightarrow>
          (let result = PuppeteerScraper_scrapeUrl pf config (w_puppeteer run) u
           in case PuppeteerScraper_close (w_puppeteer run) of
                Some e \<Rightarrow> Inl e
              | None \<Rightarrow> Inr result))"

definition scrapeUrlHttp :: "platform \<Rightarrow> (jsstring \<rightharpoonup> SiteConfig) \<Rightarrow> site_run \<Rightarrow> jsstring
    \<Rightarrow> ScrapingResult" where
  "scrapeUrlHttp pf SITE_CONFIGS run u =
     (case scrapeUrlHttp_try pf SITE_CONFIGS run u of
        Inr result \<Rightarrow> result
      | Inl e \<Rightarrow>
          \<lparr>success = False,
           url = u,
           items = [],
           error = Some (message_or (js ''Unknown error'') e),
           responseTime = 0,
           siteName = extractDomain pf u\<rparr>)"

text \<open>
  The progress callback is called with the number of URLs handled and the total; it returns,
  or it throws. The \<open>try\<close> block of the loop of \<open>scrapeUrls\<close> pushes the result of
  \<open>scrapeUrlHttp\<close> and then calls the callback: it yields the results as it leaves them and
  the exception that left it, if any.
\<close>

type_synonym progress = "nat \<Rightarrow> nat \<Rightarrow> thrown option"

definition loop_try :: "platform \<Rightarrow> (jsstring \<rightharpoonup> SiteConfig) \<Rightarrow> site_run \<Rightarrow> progress option
    \<Rightarrow> jsstring \<Rightarrow> nat \<Rightarrow> nat \<Rightarrow> ScrapingResult list \<Rightarrow> ScrapingResult list \<times> thrown option" where
  "loop_try pf SITE_CONFIGS run progressCallback u i n res =
     (let result = scrapeUrlHttp pf SITE_CONFIGS run u;
          res' = res @ [result]
      in (res', case progressCallback of None \<Rightarrow> None | Some f \<Rightarrow> f (i + 1) n))"

fun scrapeUrls_loop :: "platform \<Rightarrow> (jsstring \<rightharpoonup> SiteConfig) \<Rightarrow> (nat \<Rightarrow> site_run)
    \<Rightarrow> progress option \<Rightarrow> nat \<Rightarrow> nat \<Rightarrow> jsstring list \<Rightarrow> ScrapingResult list
    \<Rightarrow> ScrapingResult list" where
  "scrapeUrls_loop pf SITE_CONFIGS world progressCallback n i [] res = res"
| "scrapeUrls_loop pf SITE_CONFIGS world progressCallback n i (u # us) res =
     (case loop_try pf SITE_CONFIGS (world i) progressCallback u i n res of
        (res', None) \<Rightarrow> scrapeUrls_loop pf SITE_CONFIGS world progressCallback n (Suc i) us res'
      | (res', Some e) \<Rightarrow>
          scrapeUrls_loop pf SITE_CONFIGS world progressCallback n (Suc i) us
            (res' @ [\<lparr>success = False,
                       url = u,
                       items = [],
                       error = Some (message_or (js ''Unknown error'') e),
                       responseTime = 0,
                       siteName = extractDomain pf u\<rparr>]))"

text \<open>
  \<open>createBatchResult\<close> builds the batch; it then prints the summary and, when the batch has
  items, hands it to the delivery client without waiting for the answer.
\<close>

definition createBatchResult :: "jsstring list \<Rightarrow> ScrapingResult list \<Rightarrow> jsstring \<Rightarrow> jsdate
    \<Rightarrow> BatchResult" where
  "createBatchResult urls res bid ts =
     (let sc = length (filter success res);
          fc = length res - sc;
          ti = foldl (\<lambda>sum r. sum + length (items r)) 0 res;
          errs = map (\<lambda>r. case error r of
                             Some msg \<Rightarrow> if msg \<noteq> [] then msg else js ''Unknown error''
                           | None \<Rightarrow> js ''Unknown error'')
                     (filter (\<lambda>r. \<not> success r) res)
      in \<lparr>batchId = bid,
          timestamp = ts,
          totalUrls = length urls,
          successCount = sc,
          failedCount = fc,
          results = res,
          totalItems = ti,
          errors = errs\<rparr>)"

text \<open>
  \<open>scrapeUrls\<close>: the batch identifier and the date come from the platform; \<open>world i\<close> is
  what the outside world does while the URL of index \<open>i\<close> is handled.
\<close>

definition scrapeUrls :: "platform \<Rightarrow> (jsstring \<rightharpoonup> SiteConfig) \<Rightarrow> (nat \<Rightarrow> site_run)
    \<Rightarrow> jsstring \<Rightarrow> jsdate \<Rightarrow> jsstring list \<Rightarrow> progress option \<Rightarrow> BatchResult" where
  "scrapeUrls pf SITE_CONFIGS world bid ts urls progressCallback =
     createBatchResult urls
       (scrapeUrls_loop pf SITE_CONFIGS world progressCallback (length urls) 0 urls [])
       bid ts"

section \<open>The delivery client (utils/n8n-client)\<close>

text \<open>The client has a copy of \<open>parsePrice\<close> of its own, with the same patterns.\<close>

definition N8NClient_parsePrice :: "jsstring \<Rightarrow> parsed_price" where
  "N8NClient_parsePrice priceText =
     (if priceText = [] then \<lparr>pp_price = Num 0, pp_currency = js ''TRY''\<rparr>
      else let cleaned = str_trim (collapse_ws priceText)
           in first_price price_patterns cleaned)"

fun push_items :: "jsdate \<Rightarrow> ScrapedItem list \<Rightarrow> ScrapedPrice list \<Rightarrow> ScrapedPrice list" where
  "push_items ts [] prices = prices"
| "push_items ts (item # rest) prices =
     push_items ts rest
       (let parsed = N8NClient_parsePrice (item_price item)
        in if num_gt (pp_price parsed) 0
           then prices @ [\<lparr>sp_price = pp_price parsed,
                            sp_currency = pp_currency parsed,
                            sp_region = item_region item,
                            sp_product_name = item_title item,
                            sp_url = item_url item,
                            sp_batch_timestamp = ts\<rparr>]
           else prices)"

fun push_results :: "jsdate \<Rightarrow> ScrapingResult list \<Rightarrow> ScrapedPrice list \<Rightarrow> ScrapedPrice list" where
  "push_results ts [] prices = prices"
| "push_results ts (result # rest) prices =
     push_results ts rest
       (if success result \<and> length (items result) > 0
        then push_items ts (items result) prices
        else prices)"

text \<open>The payload that \<open>sendBatchData\<close> builds; the date is kept as it is, not as ISO text.\<close>

definition build_payload :: "BatchResult \<Rightarrow> N8NWebhookPayload" where
  "build_payload batchResult =
     \<lparr>p_batchId = batchId batchResult,
      p_timestamp = timestamp batchResult,
      p_items = push_results (timestamp batchResult) (results batchResult) [],
      p_metadata = \<lparr>m_totalUrls = totalUrls batchResult,
                     m_successCount = successCount batchResult,
                     m_failedCount = failedCount batchResult,
                     m_totalItems = totalItems batchResult\<rparr>\<rparr>"

text \<open>
  The webhook answers the \<open>k\<close>-th POST of a call (counted from 0) with a status, or the
  request fails. \<open>sendWithRetry\<close> returns its verdict and the POSTs it made, in order.
\<close>

datatype post_outcome = Responded nat | Failed thrown

definition sendWithRetry :: "(nat \<Rightarrow> post_outcome) \<Rightarrow> N8NWebhookPayload
    \<Rightarrow> bool \<times> N8NWebhookPayload list" where
  "sendWithRetry webhook payload =
     (case webhook 0 of
        Responded status \<Rightarrow> (if status \<ge> 200 \<and> status < 300 then (True, [payload]) else (False, [payload]))
      | Failed e \<Rightarrow> (False, [payload]))"

definition sendBatchData :: "(nat \<Rightarrow> post_outcome) \<Rightarrow> BatchResult \<Rightarrow> bool \<times> N8NWebhookPayload list" where
  "sendBatchData webhook batchResult =
     (let payload = build_payload batchResult;
          (ok, posted) = sendWithRetry webhook payload
      in if ok then (True, posted) else (False, posted))"


section \<open>A platform for the examples\<close>

text \<open>
  The examples below run on plain ASCII URLs of the form \<open>scheme://host/path\<close>, on which
  this host-name function and ASCII lower-casing agree with the platform's.
\<close>

fun after_scheme :: "jsstring \<Rightarrow> jsstring option" where
  "after_scheme [] = None"
| "after_scheme (c # cs) =
     (if starts_with (js ''://'') (c # cs) then Some (drop 3 (c # cs)) else after_scheme cs)"

definition simple_hostname :: "jsstring \<Rightarrow> jsstring option" where
  "simple_hostname u =
     (case after_scheme u of
        None \<Rightarrow> None
      | Some r \<Rightarrow>
          (let h = takeWhile (\<lambda>c. c \<noteq> code CHR ''/'' \<and> c \<noteq> code CHR ''?'' \<and> c \<noteq> code CHR ''#''
                                 \<and> c \<noteq> code CHR '':'') r
           in if h = [] then None else Some (map lowerAscii h)))"

definition ascii_platform :: platform where
  "ascii_platform = \<lparr>URL_hostname = simple_hostname, toLowerCase = map lowerAscii\<rparr>"

section \<open>Notions used to state the properties\<close>

fun uses_flaresolverr :: "scraper \<Rightarrow> bool" where
  "uses_flaresolverr (FlareSolverrScraper config) = True"
| "uses_flaresolverr (PuppeteerScraper config) = False"

fun scraper_config :: "scraper \<Rightarrow> config_value" where
  "scraper_config (FlareSolverrScraper config) = config"
| "scraper_config (PuppeteerScraper config) = config"

text \<open>A pattern every match of which contains a digit.\<close>

fun cls_digit :: "cls \<Rightarrow> bool" where
  "cls_digit Digit = True"
| "cls_digit Space = False"
| "cls_digit (OneOf cs) = False"

fun needs_digit :: "rx \<Rightarrow> bool" where
  "needs_digit (Chr c) = isDigit c"
| "needs_digit (ChrI c) = False"
| "needs_digit (Cls c) = cls_digit c"
| "needs_digit (Star c) = False"
| "needs_digit (Plus c) = cls_digit c"
| "needs_digit (Opt r) = False"
| "needs_digit (Seq a b) = (needs_digit a \<or> needs_digit b)"
| "needs_digit (Alt a b) = (needs_digit a \<and> needs_digit b)"
| "needs_digit (Grp r) = needs_digit r"

text \<open>
  A pattern every match of which takes at least one character; a pattern all of whose
  groups are of that kind; a pattern every match of which goes through a group.
\<close>

fun consumes :: "rx \<Rightarrow> bool" where
  "consumes (Chr c) = True"
| "consumes (ChrI c) = True"
| "consumes (Cls c) = True"
| "consumes (Star c) = False"
| "consumes (Plus c) = True"
| "consumes (Opt r) = False"
| "consumes (Seq a b) = (consumes a \<or> consumes b)"
| "consumes (Alt a b) = (consumes a \<and> consumes b)"
| "consumes (Grp r) = consumes r"

fun groups_consume :: "rx \<Rightarrow> bool" where
  "groups_consume (Opt r) = groups_consume r"
| "groups_consume (Seq a b) = (groups_consume a \<and> groups_consume b)"
| "groups_consume (Alt a b) = (groups_consume a \<and> groups_consume b)"
| "groups_consume (Grp r) = (consumes r \<and> groups_consume r)"
| "groups_consume r = True"

fun sets_group :: "rx \<Rightarrow> bool" where
  "sets_group (Seq a b) = (sets_group a \<or> sets_group b)"
| "sets_group (Alt a b) = (sets_group a \<and> sets_group b)"
| "sets_group (Grp r) = True"
| "sets_group r = False"

definition captured :: "jsstring option \<Rightarrow> bool" where
  "captured cap = (case cap of None \<Rightarrow> False | Some g \<Rightarrow> g \<noteq> [])"

definition no_digit :: "jsstring \<Rightarrow> bool" where
  "no_digit s = (\<not> list_ex isDigit s)"

text \<open>The record that both handlers of the orchestrator build from a caught exception.\<close>

definition failed_result :: "platform \<Rightarrow> jsstring \<Rightarrow> thrown \<Rightarrow> ScrapingResult" where
  "failed_result pf u e =
     \<lparr>success = False,
      url = u,
      items = [],
      error = Some (message_or (js ''Unknown error'') e),
      responseTime = 0,
      siteName = extractDomain pf u\<rparr>"

text \<open>
  The outcomes that the URL of index \<open>i\<close> contributes to a batch of \<open>n\<close> URLs: the result
  of \<open>scrapeUrlHttp\<close>, followed by a failed record when the progress callback throws.
\<close>

definition url_outcomes :: "platform \<Rightarrow> (jsstring \<rightharpoonup> SiteConfig) \<Rightarrow> (nat \<Rightarrow> site_run)
    \<Rightarrow> progress option \<Rightarrow> nat \<Rightarrow> nat \<Rightarrow> jsstring \<Rightarrow> ScrapingResult list" where
  "url_outcomes pf SITE_CONFIGS world progressCallback n i u =
     scrapeUrlHttp pf SITE_CONFIGS (world i) u
       # (case progressCallback of
            None \<Rightarrow> []
          | Some f \<Rightarrow> (case f (i + 1) n of None \<Rightarrow> [] | Some e \<Rightarrow> [failed_result pf u e]))"

text \<open>A progress callback that returns normally at every call, or no callback.\<close>

definition returns_normally :: "progress option \<Rightarrow> bool" where
  "returns_normally cb = (case cb of None \<Rightarrow> True | Some f \<Rightarrow> \<forall>i n. f i n = None)"

text \<open>The price record that the delivery client builds from an item.\<close>

definition to_ScrapedPrice :: "jsdate \<Rightarrow> ScrapedItem \<Rightarrow> ScrapedPrice" where
  "to_ScrapedPrice ts item =
     \<lparr>sp_price = pp_price (N8NClient_parsePrice (item_price item)),
      sp_currency = pp_currency (N8NClient_parsePrice (item_price item)),
      sp_region = item_region item,
      sp_product_name = item_title item,
      sp_url = item_url item,
      sp_batch_timestamp = ts\<rparr>"

definition reparses_positive :: "ScrapedItem \<Rightarrow> bool" where
  "reparses_positive item = num_gt (pp_price (N8NClient_parsePrice (item_price item))) 0"

section \<open>Pages and sessions for the examples\<close>

definition text_element :: "(jsstring \<times> jsstring) list \<Rightarrow> jsstring \<Rightarrow> element" where
  "text_element parts text =
     \<lparr>el_query = (\<lambda>sel. Inr (map_of parts sel)), el_text = text, el_attr = (\<lambda>a. None)\<rparr>"

definition listing :: "(jsstring \<times> element list) list \<Rightarrow> document" where
  "listing found = \<lparr>doc_query = (\<lambda>sel. Inr (case map_of found sel of None \<Rightarrow> [] | Some els \<Rightarrow> els))\<rparr>"

definition shop_config :: SiteConfig where
  "shop_config =
     \<lparr>cfg_name = js ''Shop'',
      cfg_domain = js ''shop.example'',
      cfg_selectors = \<lparr>sel_container = js ''.card, tr'', sel_title = js ''h2, h3'', sel_price = js ''.price'',
                        sel_originalPrice = None, sel_currency = None\<rparr>,
      waitFor = None, delay = None, maxRetries = None, requiresJS = None\<rparr>"

definition quiet_browser :: "document \<Rightarrow> puppeteer_session" where
  "quiet_browser doc =
     \<lparr>p_launch = None, p_open = None, p_goto = None, p_goto_fallback = None, p_settle = None,
      p_evaluate = Inr doc, p_page_close = None, p_browser_close = None, p_elapsed = 1200\<rparr>"

definition solved :: "document \<Rightarrow> flare_session" where
  "solved doc =
     \<lparr>f_session_create = None,
      f_request = Inr \<lparr>f_status = js ''ok'', f_message = [], f_solution = Inr doc\<rparr>,
      f_elapsed = 900\<rparr>"

definition pubg_card :: element where
  "pubg_card = text_element [(js ''h3'', js ''PUBG 60 UC''), (js ''.price'', js ''12,50 TL'')] (js ''PUBG 60 UC 12,50 TL'')"

definition blank_card :: element where
  "blank_card = text_element [] []"

definition shop_page :: document where
  "shop_page = listing [(js ''.card'', [pubg_card])]"

definition crashing_browser :: "document \<Rightarrow> puppeteer_session" where
  "crashing_browser doc = (quiet_browser doc)\<lparr>p_browser_close := Some (Error (js ''Target closed''))\<rparr>"

text \<open>A world in which the browser crashes on closing for the first URL and works afterwards.\<close>

definition bad_then_good :: "nat \<Rightarrow> site_run" where
  "bad_then_good i =
     \<lparr>w_puppeteer = (if i = 0 then crashing_browser shop_page else quiet_browser shop_page),
      w_flare = solved (listing [])\<rparr>"

text \<open>A result with one priced item and one whose price text has no digit.\<close>

definition priced_item :: ScrapedItem where
  "priced_item =
     \<lparr>item_title = js ''PUBG 60 UC'', item_price = js ''12,50 TL'', item_originalPrice = None,
      item_currency = js ''TRY'', item_region = js ''TR'', item_url = js ''https://shop.example/pubg'',
      item_siteName = js ''shop.example'', item_gameSlug = Some (js ''pubg'')\<rparr>"

definition unpriced_item :: ScrapedItem where
  "unpriced_item = priced_item\<lparr>item_title := js ''PUBG 325 UC'', item_price := js ''ask us''\<rparr>"

definition mixed_result :: ScrapingResult where
  "mixed_result =
     \<lparr>success = True, url = js ''https://shop.example/pubg'', items = [priced_item, unpriced_item],
      error = None, responseTime = 1200, siteName = js ''shop.example''\<rparr>"

text \<open>
  Cards that give no item: a title of two characters between spaces, no price text under
  a first heading that is blank, a price of zero. And a card that the selectors of the
  profile do not match, read by the fallback pattern.
\<close>

definition short_card :: element where
  "short_card = text_element [(js ''h3'', js '' UC ''), (js ''.price'', js ''12,50 TL'')] (js '' UC 12,50 TL'')"

definition priceless_card :: element where
  "priceless_card = text_element [(js ''h2'', js ''  ''), (js ''h3'', js ''PUBG 60 UC'')] (js ''  PUBG 60 UC'')"

definition free_card :: element where
  "free_card = text_element [(js ''h2'', js ''  ''), (js ''h3'', js ''PUBG 60 UC''), (js ''.price'', js ''0 TL'')]
     (js ''  PUBG 60 UC 0 TL'')"

definition text_card :: element where
  "text_card = text_element [] (js ''PUBG 60 UC 12,50 TL'')"

text \<open>A page whose first container selector matches a card without content.\<close>

definition two_step_page :: document where
  "two_step_page = listing [(js ''.card'', [blank_card]), (js ''tr'', [pubg_card])]"

section \<open>Properties\<close>


subsection \<open>Evaluation\<close>

lemmas char_defs = js_def code_def LIRA_def EURO_def isDigit_def isSpace_def isWord_def
  upperAscii_def lowerAscii_def starts_with_def matched_def

lemmas regex_defs = seqs_def lit_i_def number_rx_def price_patterns_def

lemmas price_defs = parsePrice_def str_trim_def collapse_ws_def parseFloat_def digits_val_def


subsection \<open>Strings\<close>

lemma word_not_space: "isWord c \<Longrightarrow> \<not> isSpace c"
  by (auto simp: isWord_def isSpace_def)

lemma collapse_from_no_space: "\<forall>c\<in>set s. \<not> isSpace c \<Longrightarrow> collapse_from b s = s"
  by (induction s arbitrary: b) auto

lemma dropWhile_none: "\<forall>c\<in>set s. \<not> P c \<Longrightarrow> dropWhile P s = s"
  by (cases s) auto

lemma str_trim_no_space: "\<forall>c\<in>set s. \<not> isSpace c \<Longrightarrow> str_trim s = s"
  by (simp add: str_trim_def dropWhile_none)

lemma sanitizeText_word: "\<forall>c\<in>set s. isWord c \<Longrightarrow> sanitizeText s = s"
proof -
  assume w: "\<forall>c\<in>set s. isWord c"
  then have ns: "\<forall>c\<in>set s. \<not> isSpace c"
    using word_not_space by blast
  have "filter whitelisted s = s"
    using w by (simp add: whitelisted_def)
  then show ?thesis
    using ns by (simp add: sanitizeText_def collapse_ws_def collapse_from_no_space str_trim_no_space)
qed

subsection \<open>sanitizeText\<close>

text \<open>
  C6. \<open>sanitizeText\<close> of the helpers collapses whitespace, removes the characters outside
  the whitelist and trims, but it does not cap the length: a string of 201 letters comes
  back whole. (The copy of the function inside the page does cut at 200 characters.)
\<close>

theorem sanitizeText_no_cap:
  "length (sanitizeText (replicate 201 (code CHR ''a''))) = 201
   \<and> length (inpage_sanitizeText (replicate 201 (code CHR ''a''))) = 200"
proof -
  have w: "\<forall>c\<in>set (replicate 201 (code CHR ''a'')). isWord c"
    by (simp add: isWord_def code_def)
  then have "sanitizeText (replicate 201 (code CHR ''a'')) = replicate 201 (code CHR ''a'')"
    by (rule sanitizeText_word)
  moreover have "inpage_sanitizeText (replicate 201 (code CHR ''a'')) = take 200 (replicate 201 (code CHR ''a''))"
    using w word_not_space
    by (simp add: inpage_sanitizeText_def collapse_ws_def collapse_from_no_space str_trim_no_space)
  ultimately show ?thesis by simp
qed

subsection \<open>extractDomain\<close>

lemma extractDomain_malformed: "URL_hostname pf u = None \<Longrightarrow> extractDomain pf u = []"
  by (simp add: extractDomain_def)

lemma extractDomain_leading_www:
  "URL_hostname pf u = Some (js ''www.'' @ h) \<Longrightarrow> extractDomain pf u = h"
  by (simp add: extractDomain_def char_defs)

lemma str_replace_absent: "\<not> str_includes s pat \<Longrightarrow> str_replace pat rep s = s"
  by (induction s) (auto split: if_splits)

lemma extractDomain_no_www:
  "URL_hostname pf u = Some h \<Longrightarrow> \<not> str_includes h (js ''www.'') \<Longrightarrow> extractDomain pf u = h"
  by (simp add: extractDomain_def str_replace_absent)

text \<open>
  C7. \<open>extractDomain\<close> removes the first \<open>www.\<close> that occurs anywhere in the host name,
  not only a leading one: the host \<open>awww.com\<close>, which has no leading \<open>www.\<close>, is returned
  as \<open>acom\<close> instead of unchanged.
\<close>

theorem extractDomain_inner_www:
  "URL_hostname ascii_platform (js ''https://awww.com/x'') = Some (js ''awww.com'')
   \<and> extractDomain ascii_platform (js ''https://awww.com/x'') = js ''acom''"
  by (simp add: extractDomain_def ascii_platform_def simple_hostname_def char_defs)

subsection \<open>The delivery client posts once\<close>

lemma sendWithRetry_posts_once: "snd (sendWithRetry webhook payload) = [payload]"
  by (simp add: sendWithRetry_def split: post_outcome.split)

lemma sendBatchData_posts_once:
  "snd (sendBatchData webhook b) = [build_payload b]"
proof -
  obtain ok posted where sw: "sendWithRetry webhook (build_payload b) = (ok, posted)"
    by (cases "sendWithRetry webhook (build_payload b)")
  with sendWithRetry_posts_once [of webhook "build_payload b"] have "posted = [build_payload b]"
    by simp
  with sw show ?thesis
    by (simp add: sendBatchData_def)
qed

lemma sendBatchData_verdict:
  "fst (sendBatchData webhook b)
     = (case webhook 0 of Responded status \<Rightarrow> 200 \<le> status \<and> status < 300 | Failed e \<Rightarrow> False)"
  by (auto simp add: sendBatchData_def sendWithRetry_def Let_def split: post_outcome.split)

text \<open>
  C5. \<open>sendBatchData\<close> never retries. With a webhook whose first request fails and whose
  second request would be answered with status 200, it makes one POST and returns false.
\<close>

theorem sendBatchData_no_retry:
  "sendBatchData (\<lambda>k. if k = 0 then Failed (Error (js ''timeout'')) else Responded 200)
     (createBatchResult [] [] (js ''batch_1'') 0)
   = (False, [build_payload (createBatchResult [] [] (js ''batch_1'') 0)])"
  by (simp add: sendBatchData_def sendWithRetry_def)

subsection \<open>Dispatch\<close>

lemma new_scraper_dispatch:
  "uses_flaresolverr (new_scraper pf SITE_CONFIGS u)
     = (extractDomain pf u = js ''oyuneks.com'' \<or> extractDomain pf u = js ''liderepin.com'')
   \<and> scraper_config (new_scraper pf SITE_CONFIGS u)
     = (case lookup_config SITE_CONFIGS (extractDomain pf u) of
          Some c \<Rightarrow> c
        | None \<Rightarrow> Profile (getGenericConfig (extractDomain pf u)))
   \<and> scrapeUrlHttp_try pf SITE_CONFIGS run u
     = (if uses_flaresolverr (new_scraper pf SITE_CONFIGS u)
        then Inr (FlareSolverrScraper_scrapeUrl pf (scraper_config (new_scraper pf SITE_CONFIGS u))
                    (w_flare run) u)
        else (case PuppeteerScraper_close (w_puppeteer run) of
                Some e \<Rightarrow> Inl e
              | None \<Rightarrow>
                  Inr (PuppeteerScraper_scrapeUrl pf (scraper_config (new_scraper pf SITE_CONFIGS u))
                         (w_puppeteer run) u)))"
  by (auto simp add: new_scraper_def scrapeUrlHttp_try_def FLARESOLVERR_REQUIRED_DOMAINS_def Let_def
        split: option.splits)

lemma unregistered_plain_domain:
  "SITE_CONFIGS (extractDomain pf u) = None \<Longrightarrow> extractDomain pf u \<notin> set Object_prototype_keys
   \<Longrightarrow> scraper_config (new_scraper pf SITE_CONFIGS u) = Profile (getGenericConfig (extractDomain pf u))"
  by (simp add: new_scraper_def lookup_config_def Let_def)

lemma registered_domain:
  "SITE_CONFIGS (extractDomain pf u) = Some c
   \<Longrightarrow> scraper_config (new_scraper pf SITE_CONFIGS u) = Profile c"
  by (simp add: new_scraper_def lookup_config_def Let_def)

lemma example_domains:
  "extractDomain ascii_platform (js ''https://www.oyuneks.com/pubg'') = js ''oyuneks.com''"
  "extractDomain ascii_platform (js ''https://www.turkpin.com/x'') = js ''turkpin.com''"
  "extractDomain ascii_platform (js ''https://shop.example/x'') = js ''shop.example''"
  "extractDomain ascii_platform (js ''https://constructor/x'') = js ''constructor''"
  by (simp_all add: extractDomain_def ascii_platform_def simple_hostname_def char_defs)

lemma example_dispatch:
  "js ''shop.example'' \<notin> FLARESOLVERR_REQUIRED_DOMAINS"
  "js ''constructor'' \<notin> FLARESOLVERR_REQUIRED_DOMAINS"
  "js ''oyuneks.com'' \<in> FLARESOLVERR_REQUIRED_DOMAINS"
  "js ''shop.example'' \<notin> set Object_prototype_keys"
  "js ''constructor'' \<in> set Object_prototype_keys"
  by (simp_all add: FLARESOLVERR_REQUIRED_DOMAINS_def Object_prototype_keys_def js_def code_def)

text \<open>
  C4. For every URL the FlareSolverr scraper is built, and its \<open>scrapeUrl\<close> run, exactly
  when the domain is \<open>oyuneks.com\<close> or \<open>liderepin.com\<close>, and the Puppeteer scraper
  otherwise; a registered domain gets its profile. But an unregistered domain does not always get the generic
  profile. The host \<open>constructor\<close> is not registered, and \<open>SITE_CONFIGS[domain]\<close> finds the
  member \<open>constructor\<close> that the table inherits: the Puppeteer scraper is built with that
  member instead of the generic profile, the extraction inside the page throws, and a page
  with a priced card gives \<open>No items found with Puppeteer\<close>. An unregistered host such as
  \<open>shop.example\<close> gets the generic profile, with its eight container selectors and three
  retries.
\<close>

theorem inherited_member_not_generic:
  "uses_flaresolverr (new_scraper pf SITE_CONFIGS u)
     = (extractDomain pf u = js ''oyuneks.com'' \<or> extractDomain pf u = js ''liderepin.com'')
   \<and> scraper_config (new_scraper pf SITE_CONFIGS u)
     = (case SITE_CONFIGS (extractDomain pf u) of
          Some c \<Rightarrow> Profile c
        | None \<Rightarrow>
            if extractDomain pf u \<in> set Object_prototype_keys then Inherited (extractDomain pf u)
            else Profile (getGenericConfig (extractDomain pf u)))
   \<and> scrapeUrlHttp_try pf SITE_CONFIGS run u
     = (if uses_flaresolverr (new_scraper pf SITE_CONFIGS u)
        then Inr (FlareSolverrScraper_scrapeUrl pf (scraper_config (new_scraper pf SITE_CONFIGS u))
                    (w_flare run) u)
        else (case PuppeteerScraper_close (w_puppeteer run) of
                Some e \<Rightarrow> Inl e
              | None \<Rightarrow>
                  Inr (PuppeteerScraper_scrapeUrl pf (scraper_config (new_scraper pf SITE_CONFIGS u))
                         (w_puppeteer run) u)))
   \<and> URL_hostname ascii_platform (js ''https://constructor/x'') = Some (js ''constructor'')
   \<and> new_scraper ascii_platform (SITE_CONFIGS(js ''constructor'' := None)) (js ''https://constructor/x'')
       = PuppeteerScraper (Inherited (js ''constructor''))
   \<and> scrapeUrlHttp ascii_platform (SITE_CONFIGS(js ''constructor'' := None))
         \<lparr>w_puppeteer = quiet_browser shop_page, w_flare = fl\<rparr> (js ''https://constructor/x'')
       = \<lparr>success = False, url = js ''https://constructor/x'', items = [],
          error = Some (js ''No items found with Puppeteer''), responseTime = 1200,
          siteName = js ''constructor''\<rparr>
   \<and> new_scraper ascii_platform (SITE_CONFIGS(js ''shop.example'' := None)) (js ''https://shop.example/x'')
       = PuppeteerScraper (Profile (getGenericConfig (js ''shop.example'')))
   \<and> cfg_domain (getGenericConfig d) = d \<and> cfg_name (getGenericConfig d) = d
   \<and> maxRetries (getGenericConfig d) = Some 3 \<and> requiresJS (getGenericConfig d) = Some False
   \<and> waitFor (getGenericConfig d) = None \<and> delay (getGenericConfig d) = Some 1000
   \<and> str_split (sel_container (cfg_selectors (getGenericConfig d))) (js '', '')
       = [js ''.product'', js ''.item'', js ''.card'', js ''.product-item'', js ''div'', js ''article'',
          js ''section'', js ''tr'']"
proof -
  have h: "URL_hostname ascii_platform (js ''https://constructor/x'') = Some (js ''constructor'')"
    by (simp add: ascii_platform_def simple_hostname_def char_defs)
  have n: "new_scraper ascii_platform (SITE_CONFIGS(js ''constructor'' := None)) (js ''https://constructor/x'')
             = PuppeteerScraper (Inherited (js ''constructor''))"
    by (simp add: new_scraper_def lookup_config_def example_domains example_dispatch)
  have x: "extractItems ascii_platform (Inherited (js ''constructor'')) (quiet_browser shop_page)
             (js ''https://constructor/x'') = []"
    by (simp add: extractItems_def inpage_function_def quiet_browser_def)
  have r: "scrapeUrlHttp ascii_platform (SITE_CONFIGS(js ''constructor'' := None))
         \<lparr>w_puppeteer = quiet_browser shop_page, w_flare = fl\<rparr> (js ''https://constructor/x'')
       = \<lparr>success = False, url = js ''https://constructor/x'', items = [],
          error = Some (js ''No items found with Puppeteer''), responseTime = 1200,
          siteName = js ''constructor''\<rparr>"
    by (simp add: scrapeUrlHttp_def scrapeUrlHttp_try_def n PuppeteerScraper_scrapeUrl_def
          puppeteer_try_def x [unfolded quiet_browser_def] PuppeteerScraper_close_def
          quiet_browser_def example_domains)
  have g: "new_scraper ascii_platform (SITE_CONFIGS(js ''shop.example'' := None)) (js ''https://shop.example/x'')
             = PuppeteerScraper (Profile (getGenericConfig (js ''shop.example'')))"
    by (simp add: new_scraper_def lookup_config_def example_domains example_dispatch)
  have c: "str_split (sel_container (cfg_selectors (getGenericConfig d))) (js '', '')
       = [js ''.product'', js ''.item'', js ''.card'', js ''.product-item'', js ''div'', js ''article'',
          js ''section'', js ''tr'']"
    by (simp add: getGenericConfig_def str_split_def char_defs)
  have k: "uses_flaresolverr (new_scraper pf SITE_CONFIGS u)
     = (extractDomain pf u = js ''oyuneks.com'' \<or> extractDomain pf u = js ''liderepin.com'')"
    using new_scraper_dispatch [of pf SITE_CONFIGS u] by simp
  have l: "scraper_config (new_scraper pf SITE_CONFIGS u)
     = (case SITE_CONFIGS (extractDomain pf u) of
          Some c \<Rightarrow> Profile c
        | None \<Rightarrow>
            if extractDomain pf u \<in> set Object_prototype_keys then Inherited (extractDomain pf u)
            else Profile (getGenericConfig (extractDomain pf u)))"
    by (simp add: new_scraper_def lookup_config_def Let_def split: option.splits)
  have t: "scrapeUrlHttp_try pf SITE_CONFIGS run u
     = (if uses_flaresolverr (new_scraper pf SITE_CONFIGS u)
        then Inr (FlareSolverrScraper_scrapeUrl pf (scraper_config (new_scraper pf SITE_CONFIGS u))
                    (w_flare run) u)
        else (case PuppeteerScraper_close (w_puppeteer run) of
                Some e \<Rightarrow> Inl e
              | None \<Rightarrow>
                  Inr (PuppeteerScraper_scrapeUrl pf (scraper_config (new_scraper pf SITE_CONFIGS u))
                         (w_puppeteer run) u)))"
    using new_scraper_dispatch [of pf SITE_CONFIGS u run] by simp
  have rest: "cfg_domain (getGenericConfig d) = d \<and> cfg_name (getGenericConfig d) = d
   \<and> maxRetries (getGenericConfig d) = Some 3 \<and> requiresJS (getGenericConfig d) = Some False
   \<and> waitFor (getGenericConfig d) = None \<and> delay (getGenericConfig d) = Some 1000"
    by (simp add: getGenericConfig_def)
  show ?thesis
    using k l t h n r g c rest by blast
qed


subsection \<open>Patterns that need a digit\<close>

lemma many_fails:
  "(\<And>s'. set s' \<subseteq> set s \<Longrightarrow> k s' = None) \<Longrightarrow> many c s k = None"
proof (induction s)
  case Nil
  then show ?case by simp
next
  case (Cons x xs)
  have "many c xs k = None"
    by (rule Cons.IH) (rule Cons.prems, auto)
  moreover have "k (x # xs) = None"
    by (rule Cons.prems) simp
  ultimately show ?case by simp
qed

lemma rx_match_fails:
  "(\<And>s' cap'. set s' \<subseteq> set s \<Longrightarrow> k s' cap' = None) \<Longrightarrow> rx_match r s cap k = None"
proof (induction r arbitrary: s cap k)
  case (Chr c)
  then show ?case by (cases s) auto
next
  case (ChrI c)
  then show ?case by (cases s) auto
next
  case (Cls c)
  then show ?case by (cases s) auto
next
  case (Star c)
  then show ?case by (simp add: many_fails)
next
  case (Plus c)
  show ?case
  proof (cases s)
    case Nil
    then show ?thesis by simp
  next
    case (Cons x xs)
    have "many c xs (\<lambda>s'. k s' cap) = None"
      by (rule many_fails) (rule Plus.prems, use Cons in auto)
    with Cons show ?thesis by simp
  qed
next
  case (Opt r)
  then show ?case by simp
next
  case (Seq a b)
  show ?case
    unfolding rx_match.simps
  proof (rule Seq.IH(1))
    fix s' cap'
    assume sub: "set s' \<subseteq> set s"
    show "rx_match b s' cap' k = None"
      by (rule Seq.IH(2)) (rule Seq.prems, use sub in auto)
  qed
next
  case (Alt a b)
  then show ?case by simp
next
  case (Grp r)
  show ?case
    unfolding rx_match.simps
    by (rule Grp.IH) (rule Grp.prems)
qed

lemma rx_match_needs_digit:
  "needs_digit r \<Longrightarrow> \<forall>x\<in>set s. \<not> isDigit x \<Longrightarrow> rx_match r s cap k = None"
proof (induction r arbitrary: s cap k)
  case (Chr c)
  then show ?case by (cases s) auto
next
  case (Cls c)
  then show ?case by (cases s; cases c) auto
next
  case (Plus c)
  then show ?case by (cases s; cases c) auto
next
  case (Seq a b)
  show ?case
  proof (cases "needs_digit a")
    case True
    then show ?thesis using Seq by simp
  next
    case False
    with Seq.prems have nb: "needs_digit b" by simp
    show ?thesis
      unfolding rx_match.simps
    proof (rule rx_match_fails)
      fix s' cap'
      assume "set s' \<subseteq> set s"
      with Seq.prems(2) have "\<forall>x\<in>set s'. \<not> isDigit x" by blast
      then show "rx_match b s' cap' k = None"
        using Seq.IH(2) nb by blast
    qed
  qed
next
  case (Alt a b)
  then show ?case by simp
next
  case (Grp r)
  then show ?case by simp
qed simp_all

lemma rx_exec_needs_digit:
  "needs_digit r \<Longrightarrow> \<forall>x\<in>set s. \<not> isDigit x \<Longrightarrow> rx_exec r s = None"
  by (induction s) (simp_all add: rx_match_needs_digit)

lemma collapse_from_set: "x \<in> set (collapse_from b s) \<Longrightarrow> x \<in> set s \<or> x = 32"
  by (induction s arbitrary: b) (auto split: if_splits)

lemma str_trim_set: "x \<in> set (str_trim s) \<Longrightarrow> x \<in> set s"
  by (auto simp: str_trim_def dest!: set_dropWhileD)

lemma cleaned_no_digit:
  "\<forall>x\<in>set s. \<not> isDigit x \<Longrightarrow> \<forall>x\<in>set (str_trim (collapse_ws s)). \<not> isDigit x"
proof
  fix x
  assume nd: "\<forall>x\<in>set s. \<not> isDigit x" and "x \<in> set (str_trim (collapse_ws s))"
  then have "x \<in> set s \<or> x = 32"
    using str_trim_set collapse_from_set unfolding collapse_ws_def by blast
  with nd show "\<not> isDigit x" by (auto simp: isDigit_def)
qed

lemma price_patterns_need_digit: "\<forall>p\<in>set price_patterns. needs_digit (fst p)"
  by (simp add: regex_defs char_defs)

lemma first_price_none:
  "\<forall>p\<in>set ps. rx_exec (fst p) c = None
   \<Longrightarrow> first_price ps c = \<lparr>pp_price = Num 0, pp_currency = js ''TRY''\<rparr>"
  by (induction ps) auto

lemma first_price_first:
  "\<forall>p\<in>set before. rx_exec (fst p) c = None \<Longrightarrow> rx_exec regex c = Some m
   \<Longrightarrow> group1 m = Some g \<Longrightarrow> g \<noteq> []
   \<Longrightarrow> first_price (before @ (regex, cur) # after) c
       = \<lparr>pp_price = parseFloat (str_replace (js '','') (js ''.'') g), pp_currency = cur\<rparr>"
  by (induction before) auto

lemma parsePrice_no_digit:
  assumes "no_digit s"
  shows "parsePrice s = \<lparr>pp_price = Num 0, pp_currency = js ''TRY''\<rparr>"
proof -
  from assms have nd: "\<forall>x\<in>set s. \<not> isDigit x"
    by (simp add: no_digit_def list_ex_iff)
  have "\<forall>p\<in>set price_patterns. rx_exec (fst p) (str_trim (collapse_ws s)) = None"
    using price_patterns_need_digit cleaned_no_digit [OF nd] rx_exec_needs_digit by blast
  then show ?thesis
    by (simp add: parsePrice_def first_price_none)
qed

subsection \<open>Patterns whose group is never empty\<close>

lemma many_continues:
  "many c s k = Some v \<Longrightarrow> \<exists>s'. k s' = Some v \<and> length s' \<le> length s"
proof (induction s)
  case Nil
  then show ?case by auto
next
  case (Cons x xs)
  show ?case
  proof (cases "in_cls c x \<and> many c xs k \<noteq> None")
    case True
    with Cons.prems have "many c xs k = Some v" by auto
    from Cons.IH [OF this] show ?thesis by auto
  next
    case False
    with Cons.prems have "k (x # xs) = Some v" by (auto split: if_splits option.splits)
    then show ?thesis by auto
  qed
qed

lemma rx_match_continues:
  "groups_consume r \<Longrightarrow> rx_match r s cap k = Some v \<Longrightarrow>
     \<exists>s' cap'. k s' cap' = Some v \<and> length s' \<le> length s
        \<and> (consumes r \<longrightarrow> length s' < length s)
        \<and> (captured cap \<or> sets_group r \<longrightarrow> captured cap')"
proof (induction r arbitrary: s cap k)
  case (Chr c)
  then obtain x xs where "s = x # xs" "k xs cap = Some v"
    by (cases s) (auto split: if_splits)
  then show ?case
    by (intro exI [of _ xs] exI [of _ cap]) simp
next
  case (ChrI c)
  then obtain x xs where "s = x # xs" "k xs cap = Some v"
    by (cases s) (auto split: if_splits)
  then show ?case
    by (intro exI [of _ xs] exI [of _ cap]) simp
next
  case (Cls c)
  then obtain x xs where "s = x # xs" "k xs cap = Some v"
    by (cases s) (auto split: if_splits)
  then show ?case
    by (intro exI [of _ xs] exI [of _ cap]) simp
next
  case (Star c)
  from Star.prems(2) have "many c s (\<lambda>s'. k s' cap) = Some v" by simp
  from many_continues [OF this] obtain s' where "k s' cap = Some v" "length s' \<le> length s"
    by blast
  then show ?case
    by (intro exI [of _ s'] exI [of _ cap]) simp
next
  case (Plus c)
  from Plus.prems(2) obtain x xs where s: "s = x # xs" and m: "many c xs (\<lambda>s'. k s' cap) = Some v"
    by (cases s) (auto split: if_splits)
  from many_continues [OF m] obtain s' where "k s' cap = Some v" "length s' \<le> length xs"
    by blast
  with s show ?case
    by (intro exI [of _ s'] exI [of _ cap]) simp
next
  case (Opt r)
  show ?case
  proof (cases "rx_match r s cap k")
    case None
    with Opt.prems(2) have "k s cap = Some v" by simp
    then show ?thesis
      by (intro exI [of _ s] exI [of _ cap]) simp
  next
    case (Some w)
    with Opt.prems(2) have "rx_match r s cap k = Some v" by simp
    from Opt.IH [OF _ this] Opt.prems(1) show ?thesis by fastforce
  qed
next
  case (Seq a b)
  from Seq.prems have ga: "groups_consume a" and gb: "groups_consume b"
    and m: "rx_match a s cap (\<lambda>s' cap'. rx_match b s' cap' k) = Some v"
    by simp_all
  from Seq.IH(1) [OF ga m] obtain s1 cap1 where
    1: "rx_match b s1 cap1 k = Some v" "length s1 \<le> length s"
       "consumes a \<longrightarrow> length s1 < length s"
       "captured cap \<or> sets_group a \<longrightarrow> captured cap1"
    by blast
  from Seq.IH(2) [OF gb 1(1)] obtain s2 cap2 where
    2: "k s2 cap2 = Some v" "length s2 \<le> length s1"
       "consumes b \<longrightarrow> length s2 < length s1"
       "captured cap1 \<or> sets_group b \<longrightarrow> captured cap2"
    by blast
  have "length s2 \<le> length s" using 1(2) 2(2) by simp
  moreover have "consumes (Seq a b) \<longrightarrow> length s2 < length s"
    using 1(2,3) 2(2,3) by auto
  moreover have "captured cap \<or> sets_group (Seq a b) \<longrightarrow> captured cap2"
    using 1(4) 2(4) by auto
  ultimately show ?case using 2(1) by blast
next
  case (Alt a b)
  show ?case
  proof (cases "rx_match a s cap k")
    case None
    with Alt.prems(2) have "rx_match b s cap k = Some v" by simp
    from Alt.IH(2) [OF _ this] Alt.prems(1) show ?thesis by fastforce
  next
    case (Some w)
    with Alt.prems(2) have "rx_match a s cap k = Some v" by simp
    from Alt.IH(1) [OF _ this] Alt.prems(1) show ?thesis by fastforce
  qed
next
  case (Grp r)
  from Grp.prems have g: "groups_consume r" and c: "consumes r"
    and m: "rx_match r s cap (\<lambda>s' cap'. k s' (Some (take (length s - length s') s))) = Some v"
    by simp_all
  from Grp.IH [OF g m] c obtain s' where
    1: "k s' (Some (take (length s - length s') s)) = Some v" "length s' < length s"
    by auto
  then have "take (length s - length s') s \<noteq> []" by auto
  then have "captured (Some (take (length s - length s') s))"
    by (simp add: captured_def)
  with 1 show ?case by (intro exI [of _ s'] exI [of _ "Some (take (length s - length s') s)"]) auto
qed

lemma rx_exec_captures:
  "groups_consume r \<Longrightarrow> sets_group r \<Longrightarrow> rx_exec r s = Some m \<Longrightarrow> captured (group1 m)"
proof (induction s)
  case Nil
  then have "rx_match r [] None (matched []) = Some m" by simp
  from rx_match_continues [OF Nil.prems(1) this] Nil.prems(2) show ?case
    by (auto simp add: matched_def)
next
  case (Cons x xs)
  show ?case
  proof (cases "rx_match r (x # xs) None (matched (x # xs))")
    case None
    with Cons show ?thesis by simp
  next
    case (Some w)
    with Cons.prems(3) have "rx_match r (x # xs) None (matched (x # xs)) = Some m" by simp
    from rx_match_continues [OF Cons.prems(1) this] Cons.prems(2) show ?thesis
      by (auto simp add: matched_def)
  qed
qed

lemma price_patterns_capture:
  "\<forall>p\<in>set price_patterns. groups_consume (fst p) \<and> sets_group (fst p)"
  by (simp add: regex_defs)

lemma price_pattern_group:
  assumes "p \<in> set price_patterns" and "rx_exec (fst p) s = Some m"
  shows "\<exists>g. group1 m = Some g \<and> g \<noteq> []"
proof -
  from assms(1) price_patterns_capture have "groups_consume (fst p)" "sets_group (fst p)"
    by auto
  from rx_exec_captures [OF this assms(2)] show ?thesis
    by (cases "group1 m") (auto simp add: captured_def)
qed

subsection \<open>parsePrice\<close>

lemma parsePrice_lira: "parsePrice ([LIRA] @ js ''149,90'') = \<lparr>pp_price = Num (1499 / 10), pp_currency = js ''TRY''\<rparr>"
  by (simp add: char_defs regex_defs price_defs)

lemma parsePrice_dollar: "parsePrice (js ''$19.99'') = \<lparr>pp_price = Num (1999 / 100), pp_currency = js ''USD''\<rparr>"
  by (simp add: char_defs regex_defs price_defs)

lemma price_pattern_currencies:
  "map snd price_patterns = [js ''TRY'', js ''TRY'', js ''TRY'', js ''TRY'', js ''USD'', js ''USD'',
                             js ''EUR'', js ''EUR'', js ''TRY'']
   \<and> fst (last price_patterns) = number_rx"
  by (simp add: price_patterns_def)

lemma collapse_from_skip:
  "\<forall>c\<in>set ws. isSpace c \<Longrightarrow> collapse_from True (ws @ ys) = collapse_from True ys"
  by (induction ws) auto

lemma collapse_from_flag:
  "ys = [] \<or> \<not> isSpace (hd ys) \<Longrightarrow> collapse_from True ys = collapse_from False ys"
  by (cases ys) auto

lemma collapse_from_run:
  assumes "ws \<noteq> []" and "\<forall>c\<in>set ws. isSpace c" and "ys = [] \<or> \<not> isSpace (hd ys)"
  shows "collapse_from False (ws @ ys) = 32 # collapse_from False ys"
proof -
  from assms(1) obtain w ws' where ws: "ws = w # ws'" by (cases ws) auto
  with assms(2) have "isSpace w" "\<forall>c\<in>set ws'. isSpace c" by auto
  then have "collapse_from False (ws @ ys) = 32 # collapse_from True ys"
    unfolding ws by (simp add: collapse_from_skip)
  with assms(3) show ?thesis by (simp add: collapse_from_flag)
qed

lemma collapse_from_append:
  "a \<noteq> [] \<Longrightarrow> \<not> isSpace (last a) \<Longrightarrow>
     collapse_from b (a @ ys) = collapse_from b a @ collapse_from False ys"
proof (induction a arbitrary: b)
  case Nil
  then show ?case by simp
next
  case (Cons x a)
  show ?case
  proof (cases "a = []")
    case True
    with Cons.prems show ?thesis by simp
  next
    case False
    with Cons.prems have "\<not> isSpace (last a)" by simp
    from Cons.IH [OF False this] show ?thesis by simp
  qed
qed

lemma collapse_ws_run:
  assumes "a = [] \<or> \<not> isSpace (last a)" and "ws \<noteq> []" and "list_all isSpace ws"
    and "b = [] \<or> \<not> isSpace (hd b)"
  shows "collapse_ws (a @ ws @ b) = collapse_ws a @ 32 # collapse_ws b"
proof -
  from assms(3) have sp: "\<forall>c\<in>set ws. isSpace c" by (simp add: list_all_iff)
  have run: "collapse_from False (ws @ b) = 32 # collapse_from False b"
    using assms(2) sp assms(4) by (rule collapse_from_run)
  show ?thesis
  proof (cases "a = []")
    case True
    with run show ?thesis by (simp add: collapse_ws_def)
  next
    case False
    with assms(1) have "\<not> isSpace (last a)" by simp
    from collapse_from_append [OF False this, of False "ws @ b"] run show ?thesis
      by (simp add: collapse_ws_def)
  qed
qed

lemma collapse_ws_plain: "\<not> list_ex isSpace s \<Longrightarrow> collapse_ws s = s"
  by (simp add: collapse_ws_def collapse_from_no_space list_ex_iff)

lemma str_trim_core:
  assumes "list_all isSpace ws1" and "list_all isSpace ws2" and "core \<noteq> []"
    and "\<not> isSpace (hd core)" and "\<not> isSpace (last core)"
  shows "str_trim (ws1 @ core @ ws2) = core"
proof -
  from assms(1,2) have sp: "\<forall>c\<in>set ws1. isSpace c" "\<forall>c\<in>set (rev ws2). isSpace c"
    by (simp_all add: list_all_iff)
  have hd_core: "dropWhile isSpace (core @ ws2) = core @ ws2"
    using assms(3,4) by (cases core) auto
  have "dropWhile isSpace (ws1 @ core @ ws2) = core @ ws2"
    using sp(1) hd_core by (simp add: dropWhile_append2)
  moreover have "dropWhile isSpace (rev ws2 @ rev core) = rev core"
  proof -
    have "rev core \<noteq> []" "\<not> isSpace (hd (rev core))"
      using assms(3,5) by (simp_all add: hd_rev)
    then have "dropWhile isSpace (rev core) = rev core"
      by (cases "rev core") auto
    moreover have "dropWhile isSpace (rev ws2 @ rev core) = dropWhile isSpace (rev core)"
      using sp(2) by (intro dropWhile_append2) simp
    ultimately show ?thesis by simp
  qed
  ultimately show ?thesis
    by (simp add: str_trim_def)
qed

lemma str_trim_blank: "list_all isSpace ws \<Longrightarrow> str_trim ws = []"
proof -
  assume "list_all isSpace ws"
  then have "dropWhile isSpace ws = []"
    by (induction ws) auto
  then show ?thesis
    unfolding str_trim_def by (simp only: rev.simps dropWhile.simps)
qed

lemma spaced_price:
  "str_trim (collapse_ws (js ''  12,5'' @ [9, 32, 10] @ js ''TL '')) = js ''12,5 TL''"
  by (simp add: char_defs price_defs)

lemma parsePrice_spaced:
  "parsePrice (js ''  12,5'' @ [9, 32, 10] @ js ''TL '')
     = \<lparr>pp_price = Num (25 / 2), pp_currency = js ''TRY''\<rparr>"
  by (simp add: char_defs regex_defs price_defs)

text \<open>
  C8. \<open>parsePrice\<close> tries its patterns in order on the cleaned text, which is the text with
  every run of whitespace turned into one space and the spaces at both ends removed: the
  lira and TL patterns (TRY) come before the dollar patterns (USD), these before the euro
  patterns (EUR), and the bare number (TRY) is last. The first pattern that matches decides
  the currency, and the price is its number (group 1, which a match never leaves empty)
  with the decimal comma turned into a period. A text without digits gives 0 and TRY. The
  lira sign followed by 149,90 gives 149.90 TRY, \<open>$19.99\<close> gives 19.99 USD and \<open>no digits\<close>
  gives 0 TRY; two spaces, 12,5, a tab, a space, a line feed, TL and a space are cleaned
  to \<open>12,5 TL\<close> and give 12.5 TRY.
\<close>

theorem parsePrice_first_match:
  "map snd price_patterns = [js ''TRY'', js ''TRY'', js ''TRY'', js ''TRY'', js ''USD'', js ''USD'',
                             js ''EUR'', js ''EUR'', js ''TRY'']
   \<and> fst (last price_patterns) = number_rx
   \<and> (\<forall>before regex cur after m.
         priceText \<noteq> []
         \<and> price_patterns = before @ (regex, cur) # after
         \<and> (\<forall>p\<in>set before. rx_exec (fst p) (str_trim (collapse_ws priceText)) = None)
         \<and> rx_exec regex (str_trim (collapse_ws priceText)) = Some m
         \<longrightarrow> (\<exists>g. group1 m = Some g \<and> g \<noteq> []
                \<and> parsePrice priceText
                    = \<lparr>pp_price = parseFloat (str_replace (js '','') (js ''.'') g),
                       pp_currency = cur\<rparr>))
   \<and> (no_digit priceText \<longrightarrow> parsePrice priceText = \<lparr>pp_price = Num 0, pp_currency = js ''TRY''\<rparr>)
   \<and> parsePrice ([LIRA] @ js ''149,90'') = \<lparr>pp_price = Num (1499 / 10), pp_currency = js ''TRY''\<rparr>
   \<and> parsePrice (js ''$19.99'') = \<lparr>pp_price = Num (1999 / 100), pp_currency = js ''USD''\<rparr>
   \<and> parsePrice (js ''no digits'') = \<lparr>pp_price = Num 0, pp_currency = js ''TRY''\<rparr>
   \<and> (\<forall>a ws b.
         (a = [] \<or> \<not> isSpace (last a)) \<and> ws \<noteq> [] \<and> list_all isSpace ws
         \<and> (b = [] \<or> \<not> isSpace (hd b))
         \<longrightarrow> collapse_ws (a @ ws @ b) = collapse_ws a @ 32 # collapse_ws b)
   \<and> (\<not> list_ex isSpace priceText \<longrightarrow> collapse_ws priceText = priceText)
   \<and> (\<forall>ws1 core ws2.
         list_all isSpace ws1 \<and> list_all isSpace ws2 \<and> core \<noteq> []
         \<and> \<not> isSpace (hd core) \<and> \<not> isSpace (last core)
         \<longrightarrow> str_trim (ws1 @ core @ ws2) = core)
   \<and> (list_all isSpace priceText \<longrightarrow> str_trim priceText = [])
   \<and> str_trim (collapse_ws (js ''  12,5'' @ [9, 32, 10] @ js ''TL '')) = js ''12,5 TL''
   \<and> parsePrice (js ''  12,5'' @ [9, 32, 10] @ js ''TL '')
       = \<lparr>pp_price = Num (25 / 2), pp_currency = js ''TRY''\<rparr>"
proof -
  have first: "\<forall>before regex cur after m.
         priceText \<noteq> []
         \<and> price_patterns = before @ (regex, cur) # after
         \<and> (\<forall>p\<in>set before. rx_exec (fst p) (str_trim (collapse_ws priceText)) = None)
         \<and> rx_exec regex (str_trim (collapse_ws priceText)) = Some m
         \<longrightarrow> (\<exists>g. group1 m = Some g \<and> g \<noteq> []
                \<and> parsePrice priceText
                    = \<lparr>pp_price = parseFloat (str_replace (js '','') (js ''.'') g),
                       pp_currency = cur\<rparr>)"
  proof (intro allI impI, elim conjE)
    fix before regex cur after m
    assume ne: "priceText \<noteq> []"
      and split: "price_patterns = before @ (regex, cur) # after"
      and none: "\<forall>p\<in>set before. rx_exec (fst p) (str_trim (collapse_ws priceText)) = None"
      and m: "rx_exec regex (str_trim (collapse_ws priceText)) = Some m"
    have "(regex, cur) \<in> set (before @ (regex, cur) # after)" by simp
    then have "(regex, cur) \<in> set price_patterns" unfolding split .
    with m obtain g where g: "group1 m = Some g" "g \<noteq> []"
      using price_pattern_group [of "(regex, cur)"] by auto
    have "first_price (before @ (regex, cur) # after) (str_trim (collapse_ws priceText))
            = \<lparr>pp_price = parseFloat (str_replace (js '','') (js ''.'') g), pp_currency = cur\<rparr>"
      using none m g by (rule first_price_first)
    with ne split have "parsePrice priceText
            = \<lparr>pp_price = parseFloat (str_replace (js '','') (js ''.'') g), pp_currency = cur\<rparr>"
      by (simp add: parsePrice_def)
    with g show "\<exists>g. group1 m = Some g \<and> g \<noteq> []
                \<and> parsePrice priceText
                    = \<lparr>pp_price = parseFloat (str_replace (js '','') (js ''.'') g),
                       pp_currency = cur\<rparr>"
      by blast
  qed
  have nd: "no_digit (js ''no digits'')"
    by (simp add: no_digit_def char_defs)
  have order: "map snd price_patterns = [js ''TRY'', js ''TRY'', js ''TRY'', js ''TRY'', js ''USD'', js ''USD'',
                             js ''EUR'', js ''EUR'', js ''TRY'']"
    and last: "fst (last price_patterns) = number_rx"
    using price_pattern_currencies by simp_all
  have none: "no_digit priceText \<longrightarrow> parsePrice priceText = \<lparr>pp_price = Num 0, pp_currency = js ''TRY''\<rparr>"
    using parsePrice_no_digit [of priceText] by simp
  have words: "parsePrice (js ''no digits'') = \<lparr>pp_price = Num 0, pp_currency = js ''TRY''\<rparr>"
    using parsePrice_no_digit [OF nd] .
  have run: "\<forall>a ws b.
         (a = [] \<or> \<not> isSpace (last a)) \<and> ws \<noteq> [] \<and> list_all isSpace ws
         \<and> (b = [] \<or> \<not> isSpace (hd b))
         \<longrightarrow> collapse_ws (a @ ws @ b) = collapse_ws a @ 32 # collapse_ws b"
    using collapse_ws_run by blast
  have plain: "\<not> list_ex isSpace priceText \<longrightarrow> collapse_ws priceText = priceText"
    using collapse_ws_plain [of priceText] by simp
  have trim: "\<forall>ws1 core ws2.
         list_all isSpace ws1 \<and> list_all isSpace ws2 \<and> core \<noteq> []
         \<and> \<not> isSpace (hd core) \<and> \<not> isSpace (last core)
         \<longrightarrow> str_trim (ws1 @ core @ ws2) = core"
    using str_trim_core by blast
  have blank: "list_all isSpace priceText \<longrightarrow> str_trim priceText = []"
    using str_trim_blank [of priceText] by simp
  show ?thesis
    apply (intro conjI)
    apply (rule order)
    apply (rule last)
    apply (rule first)
    apply (rule none)
    apply (rule parsePrice_lira)
    apply (rule parsePrice_dollar)
    apply (rule words)
    apply (rule run)
    apply (rule plain)
    apply (rule trim)
    apply (rule blank)
    apply (rule spaced_price)
    apply (rule parsePrice_spaced)
    done
qed

theorem parsePrice_first_match_witness:
  "js ''12,5 TL'' \<noteq> []
   \<and> list_all (\<lambda>p. rx_exec (fst p) (str_trim (collapse_ws (js ''12,5 TL''))) = None) (take 2 price_patterns)
   \<and> rx_exec (fst (price_patterns ! 2)) (str_trim (collapse_ws (js ''12,5 TL'')))
       = Some \<lparr>whole = js ''12,5 TL'', group1 = Some (js ''12,5'')\<rparr>
   \<and> parsePrice (js ''12,5 TL'') = \<lparr>pp_price = Num (25 / 2), pp_currency = js ''TRY''\<rparr>
   \<and> no_digit (js ''free'')
   \<and> parsePrice (js ''free'') = \<lparr>pp_price = Num 0, pp_currency = js ''TRY''\<rparr>
   \<and> \<not> isSpace (last (js ''12,5'')) \<and> list_all isSpace [9, 32, 10] \<and> \<not> isSpace (hd (js ''TL''))
   \<and> collapse_ws (js ''12,5'' @ [9, 32, 10] @ js ''TL'') = js ''12,5 TL''
   \<and> \<not> list_ex isSpace (js ''12,5'') \<and> collapse_ws (js ''12,5'') = js ''12,5''
   \<and> list_all isSpace [32, 9] \<and> list_all isSpace [10]
   \<and> \<not> isSpace (hd (js ''12,5 TL'')) \<and> \<not> isSpace (last (js ''12,5 TL''))
   \<and> str_trim ([32, 9] @ js ''12,5 TL'' @ [10]) = js ''12,5 TL''
   \<and> str_trim [32, 9] = []"
proof -
  let ?c = "str_trim (collapse_ws (js ''12,5 TL''))"
  have ne: "js ''12,5 TL'' \<noteq> []"
    by (simp add: char_defs)
  have before: "list_all (\<lambda>p. rx_exec (fst p) ?c = None) (take 2 price_patterns)"
    by (simp add: char_defs regex_defs price_defs)
  have m: "rx_exec (fst (price_patterns ! 2)) ?c
             = Some \<lparr>whole = js ''12,5 TL'', group1 = Some (js ''12,5'')\<rparr>"
    by (simp add: char_defs regex_defs price_defs)
  have split: "price_patterns = take 2 price_patterns @ (fst (price_patterns ! 2), js ''TRY'') # drop 3 price_patterns"
    by (simp add: price_patterns_def)
  have g: "js ''12,5'' \<noteq> []"
    by (simp add: char_defs)
  have pf: "parseFloat (str_replace (js '','') (js ''.'') (js ''12,5'')) = Num (25 / 2)"
    by (simp add: char_defs price_defs)
  have nd: "no_digit (js ''free'')"
    by (simp add: no_digit_def char_defs)
  from before have before': "\<forall>p\<in>set (take 2 price_patterns). rx_exec (fst p) ?c = None"
    by (simp add: list_all_iff)
  have "\<exists>g. group1 \<lparr>whole = js ''12,5 TL'', group1 = Some (js ''12,5'')\<rparr> = Some g \<and> g \<noteq> []
          \<and> parsePrice (js ''12,5 TL'')
              = \<lparr>pp_price = parseFloat (str_replace (js '','') (js ''.'') g), pp_currency = js ''TRY''\<rparr>"
    using parsePrice_first_match [of "js ''12,5 TL''"] ne split before' m
    by blast
  then have price: "parsePrice (js ''12,5 TL'')
          = \<lparr>pp_price = parseFloat (str_replace (js '','') (js ''.'') (js ''12,5'')), pp_currency = js ''TRY''\<rparr>"
    by auto
  have free: "parsePrice (js ''free'') = \<lparr>pp_price = Num 0, pp_currency = js ''TRY''\<rparr>"
    using parsePrice_first_match [of "js ''free''"] nd by blast
  have a: "\<not> isSpace (last (js ''12,5''))" and ws: "[9, 32, 10] \<noteq> ([] :: nat list)" "list_all isSpace [9, 32, 10]"
    and b: "\<not> isSpace (hd (js ''TL''))"
    by (simp_all add: char_defs)
  have plain: "\<not> list_ex isSpace (js ''12,5'')" "\<not> list_ex isSpace (js ''TL'')"
    by (simp_all add: char_defs)
  have keep: "collapse_ws (js ''12,5'') = js ''12,5''"
    using parsePrice_first_match [of "js ''12,5''"] plain(1) by blast
  have keep': "collapse_ws (js ''TL'') = js ''TL''"
    using parsePrice_first_match [of "js ''TL''"] plain(2) by blast
  have "collapse_ws (js ''12,5'' @ [9, 32, 10] @ js ''TL'') = collapse_ws (js ''12,5'') @ 32 # collapse_ws (js ''TL'')"
    using parsePrice_first_match [of "[]"] a ws b by blast
  with keep keep' have run: "collapse_ws (js ''12,5'' @ [9, 32, 10] @ js ''TL'') = js ''12,5 TL''"
    by (simp add: char_defs)
  have sp: "list_all isSpace [32, 9]" "list_all isSpace [10]"
    and core: "\<not> isSpace (hd (js ''12,5 TL''))" "\<not> isSpace (last (js ''12,5 TL''))"
    by (simp_all add: char_defs)
  have trim: "str_trim ([32, 9] @ js ''12,5 TL'' @ [10]) = js ''12,5 TL''"
    using parsePrice_first_match [of "[]"] sp core ne by blast
  have blank: "str_trim [32, 9] = []"
    using parsePrice_first_match [of "[32, 9]"] sp(1) by blast
  show ?thesis
    apply (intro conjI)
    apply (rule ne)
    apply (rule before)
    apply (rule m)
    apply (simp only: price pf)
    apply (rule nd)
    apply (rule free)
    apply (rule a)
    apply (rule ws(2))
    apply (rule b)
    apply (rule run)
    apply (rule plain(1))
    apply (rule keep)
    apply (rule sp(1))
    apply (rule sp(2))
    apply (rule core(1))
    apply (rule core(2))
    apply (rule trim)
    apply (rule blank)
    done
qed

subsection \<open>Results of the two scrapers\<close>

lemma puppeteer_try_result:
  "puppeteer_try pf config ses u = Inr r \<Longrightarrow>
     r = \<lparr>success = (extractItems pf config ses u \<noteq> []),
          url = u,
          items = extractItems pf config ses u,
          error = (if extractItems pf config ses u = [] then Some (js ''No items found with Puppeteer'') else None),
          responseTime = p_elapsed ses,
          siteName = extractDomain pf u\<rparr>"
  by (auto simp add: puppeteer_try_def Let_def split: option.splits)

lemma puppeteer_success_iff_items:
  "success (PuppeteerScraper_scrapeUrl pf config ses u)
     = (items (PuppeteerScraper_scrapeUrl pf config ses u) \<noteq> [])"
proof (cases "puppeteer_try pf config ses u")
  case (Inl e)
  then show ?thesis by (simp add: PuppeteerScraper_scrapeUrl_def)
next
  case (Inr r)
  from puppeteer_try_result [OF Inr] Inr show ?thesis
    by (simp add: PuppeteerScraper_scrapeUrl_def)
qed

lemma flare_try_result:
  "flare_try pf config ses u = Inr r \<Longrightarrow> success r \<and> error r = None"
  by (auto simp add: flare_try_def split: sum.splits if_splits config_value.splits)

lemma flare_failed_no_items:
  "\<not> success (FlareSolverrScraper_scrapeUrl pf config ses u)
   \<Longrightarrow> items (FlareSolverrScraper_scrapeUrl pf config ses u) = []"
  by (cases "flare_try pf config ses u")
     (auto simp add: FlareSolverrScraper_scrapeUrl_def dest: flare_try_result)

lemma scrapeUrlHttp_failed_no_items:
  "\<not> success (scrapeUrlHttp pf S run u) \<Longrightarrow> items (scrapeUrlHttp pf S run u) = []"
  by (cases "new_scraper pf S u")
     (auto simp add: scrapeUrlHttp_def scrapeUrlHttp_try_def Let_def puppeteer_success_iff_items
        dest: flare_failed_no_items split: option.splits)

lemma scrapeUrlHttp_url: "url (scrapeUrlHttp pf S run u) = u"
proof -
  have p: "url (PuppeteerScraper_scrapeUrl pf c ses u) = u" for c ses
    by (cases "puppeteer_try pf c ses u")
       (auto simp add: PuppeteerScraper_scrapeUrl_def dest: puppeteer_try_result)
  have f: "url (FlareSolverrScraper_scrapeUrl pf c ses u) = u" for c ses
    by (cases "flare_try pf c ses u")
       (auto simp add: FlareSolverrScraper_scrapeUrl_def flare_try_def
          split: sum.splits if_splits config_value.splits)
  show ?thesis
    by (cases "new_scraper pf S u")
       (auto simp add: scrapeUrlHttp_def scrapeUrlHttp_try_def Let_def p f split: option.splits)
qed

text \<open>
  C2. The result of the Puppeteer scraper is a success exactly when it carries at least one
  item. When its \<open>try\<close> block completes, the items are those of \<open>extractItems\<close>; with no
  item the result is a failure whose error is \<open>No items found with Puppeteer\<close>. The result
  of the FlareSolverr scraper is a success whenever the request is answered with status
  \<open>ok\<close> and the page is loaded and queried without an exception, whatever the items are,
  also when there is none.
\<close>

theorem empty_result_asymmetry:
  "success (PuppeteerScraper_scrapeUrl pf config ses u)
     = (items (PuppeteerScraper_scrapeUrl pf config ses u) \<noteq> [])
   \<and> (\<forall>r. puppeteer_try pf config ses u = Inr r \<longrightarrow>
          PuppeteerScraper_scrapeUrl pf config ses u = r
          \<and> items r = extractItems pf config ses u
          \<and> success r = (extractItems pf config ses u \<noteq> [])
          \<and> (extractItems pf config ses u = [] \<longrightarrow>
                \<not> success r \<and> error r = Some (js ''No items found with Puppeteer'')))
   \<and> (\<forall>profile flareResponse doc els.
          config = Profile profile
          \<and> f_request fses = Inr flareResponse \<and> f_status flareResponse = js ''ok''
          \<and> f_solution flareResponse = Inr doc
          \<and> doc_query doc (sel_container (cfg_selectors profile)) = Inr els \<longrightarrow>
          success (FlareSolverrScraper_scrapeUrl pf config fses u)
          \<and> items (FlareSolverrScraper_scrapeUrl pf config fses u)
              = flare_each pf profile u (extractDomain pf u) els []
          \<and> (els = [] \<longrightarrow> items (FlareSolverrScraper_scrapeUrl pf config fses u) = []))
   \<and> (\<forall>r. flare_try pf config fses u = Inr r \<longrightarrow>
          FlareSolverrScraper_scrapeUrl pf config fses u = r \<and> success r)"
proof -
  have a: "\<forall>r. puppeteer_try pf config ses u = Inr r \<longrightarrow>
          PuppeteerScraper_scrapeUrl pf config ses u = r
          \<and> items r = extractItems pf config ses u
          \<and> success r = (extractItems pf config ses u \<noteq> [])
          \<and> (extractItems pf config ses u = [] \<longrightarrow>
                \<not> success r \<and> error r = Some (js ''No items found with Puppeteer''))"
    by (auto simp add: PuppeteerScraper_scrapeUrl_def dest!: puppeteer_try_result)
  have b: "\<forall>profile flareResponse doc els.
          config = Profile profile
          \<and> f_request fses = Inr flareResponse \<and> f_status flareResponse = js ''ok''
          \<and> f_solution flareResponse = Inr doc
          \<and> doc_query doc (sel_container (cfg_selectors profile)) = Inr els \<longrightarrow>
          success (FlareSolverrScraper_scrapeUrl pf config fses u)
          \<and> items (FlareSolverrScraper_scrapeUrl pf config fses u)
              = flare_each pf profile u (extractDomain pf u) els []
          \<and> (els = [] \<longrightarrow> items (FlareSolverrScraper_scrapeUrl pf config fses u) = [])"
    by (auto simp add: FlareSolverrScraper_scrapeUrl_def flare_try_def)
  have c: "\<forall>r. flare_try pf config fses u = Inr r \<longrightarrow>
          FlareSolverrScraper_scrapeUrl pf config fses u = r \<and> success r"
    by (auto simp add: FlareSolverrScraper_scrapeUrl_def dest: flare_try_result)
  show ?thesis
    using puppeteer_success_iff_items [of pf config ses u] a b c by blast
qed

lemma quiet_try:
  "puppeteer_try pf config (quiet_browser doc) u
     = Inr \<lparr>success = (extractItems pf config (quiet_browser doc) u \<noteq> []),
            url = u,
            items = extractItems pf config (quiet_browser doc) u,
            error = (if extractItems pf config (quiet_browser doc) u = []
                     then Some (js ''No items found with Puppeteer'') else None),
            responseTime = 1200,
            siteName = extractDomain pf u\<rparr>"
  by (simp add: puppeteer_try_def quiet_browser_def Let_def)

lemma extract_nothing:
  "extractItems ascii_platform (Profile shop_config) (quiet_browser (listing [])) (js ''https://shop.example/pubg'') = []"
  by (simp add: extractItems_def inpage_function_def quiet_browser_def listing_def inpage_extract_def shop_config_def
        str_split_def char_defs)

theorem empty_result_asymmetry_witness:
  "puppeteer_try ascii_platform (Profile shop_config) (quiet_browser (listing [])) (js ''https://shop.example/pubg'')
     = Inr (PuppeteerScraper_scrapeUrl ascii_platform (Profile shop_config) (quiet_browser (listing []))
              (js ''https://shop.example/pubg''))
   \<and> extractItems ascii_platform (Profile shop_config) (quiet_browser (listing [])) (js ''https://shop.example/pubg'') = []
   \<and> \<not> success (PuppeteerScraper_scrapeUrl ascii_platform (Profile shop_config) (quiet_browser (listing []))
                   (js ''https://shop.example/pubg''))
   \<and> error (PuppeteerScraper_scrapeUrl ascii_platform (Profile shop_config) (quiet_browser (listing []))
              (js ''https://shop.example/pubg'')) = Some (js ''No items found with Puppeteer'')
   \<and> f_request (solved (listing [])) = Inr \<lparr>f_status = js ''ok'', f_message = [], f_solution = Inr (listing [])\<rparr>
   \<and> doc_query (listing []) (sel_container (cfg_selectors shop_config)) = Inr []
   \<and> success (FlareSolverrScraper_scrapeUrl ascii_platform (Profile shop_config) (solved (listing []))
                (js ''https://www.oyuneks.com/pubg''))
   \<and> items (FlareSolverrScraper_scrapeUrl ascii_platform (Profile shop_config) (solved (listing []))
              (js ''https://www.oyuneks.com/pubg'')) = []"
proof -
  let ?u = "js ''https://shop.example/pubg''"
  let ?v = "js ''https://www.oyuneks.com/pubg''"
  have t: "puppeteer_try ascii_platform (Profile shop_config) (quiet_browser (listing [])) ?u
             = Inr (PuppeteerScraper_scrapeUrl ascii_platform (Profile shop_config) (quiet_browser (listing [])) ?u)"
    by (simp add: PuppeteerScraper_scrapeUrl_def quiet_try)
  have q: "f_request (solved (listing [])) = Inr \<lparr>f_status = js ''ok'', f_message = [], f_solution = Inr (listing [])\<rparr>"
    by (simp add: solved_def)
  have d: "doc_query (listing []) (sel_container (cfg_selectors shop_config)) = Inr []"
    by (simp add: listing_def)
  show ?thesis
    using empty_result_asymmetry [of ascii_platform "Profile shop_config" "quiet_browser (listing [])" ?u
            "solved (listing [])"]
      empty_result_asymmetry [of ascii_platform "Profile shop_config" "quiet_browser (listing [])" ?v
            "solved (listing [])"]
      t extract_nothing q d
    by simp
qed


subsection \<open>The batch loop\<close>

lemma loop_try_outcomes:
  "(case loop_try pf S (world i) cb u i n res of
      (res', None) \<Rightarrow> res'
    | (res', Some e) \<Rightarrow> res' @ [failed_result pf u e])
   = res @ url_outcomes pf S world cb n i u"
  by (simp add: loop_try_def url_outcomes_def Let_def split: option.splits)

lemma scrapeUrls_loop_outcomes:
  "scrapeUrls_loop pf S world cb n i us res
     = res @ concat (map (\<lambda>(j, u). url_outcomes pf S world cb n j u) (List.enumerate i us))"
proof (induction us arbitrary: i res)
  case Nil
  then show ?case by simp
next
  case (Cons u us)
  have step: "scrapeUrls_loop pf S world cb n i (u # us) res
        = scrapeUrls_loop pf S world cb n (Suc i) us (res @ url_outcomes pf S world cb n i u)"
    using loop_try_outcomes [where pf = pf and S = S and world = world and i = i and cb = cb
        and u = u and n = n and res = res]
    by (simp add: failed_result_def split: prod.splits option.splits)
  show ?case
    unfolding step Cons.IH by simp
qed

lemma scrapeUrls_results:
  "results (scrapeUrls pf S world bid ts urls cb)
     = concat (map (\<lambda>(i, u). url_outcomes pf S world cb (length urls) i u) (List.enumerate 0 urls))"
  by (simp add: scrapeUrls_def createBatchResult_def Let_def scrapeUrls_loop_outcomes)

lemma createBatchResult_counts:
  "successCount (createBatchResult urls res bid ts) + failedCount (createBatchResult urls res bid ts)
     = length res"
  by (simp add: createBatchResult_def Let_def)

lemma foldl_item_count:
  "foldl (\<lambda>sum r. sum + length (items r)) a res = a + sum_list (map (\<lambda>r. length (items r)) res)"
  by (induction res arbitrary: a) auto

lemma createBatchResult_totalItems:
  "totalItems (createBatchResult urls res bid ts) = sum_list (map (\<lambda>r. length (items r)) res)"
  by (simp add: createBatchResult_def Let_def foldl_item_count)

lemma succeeded_item_count:
  "\<forall>r\<in>set res. \<not> success r \<longrightarrow> items r = [] \<Longrightarrow>
   sum_list (map (\<lambda>r. length (items r)) res)
     = sum_list (map (\<lambda>r. length (items r)) (filter success res))"
  by (induction res) auto

lemma url_outcomes_failed_no_items:
  "r \<in> set (url_outcomes pf S world cb n i u) \<Longrightarrow> \<not> success r \<Longrightarrow> items r = []"
  by (auto simp add: url_outcomes_def failed_result_def scrapeUrlHttp_failed_no_items
        split: option.splits)

lemma url_outcomes_url:
  "r \<in> set (url_outcomes pf S world cb n i u) \<Longrightarrow> url r = u"
  by (auto simp add: url_outcomes_def failed_result_def scrapeUrlHttp_url split: option.splits)

lemma in_enumerate: "(i, u) \<in> set (List.enumerate k us) \<Longrightarrow> u \<in> set us"
  by (auto simp add: in_set_enumerate_eq)

lemma scrapeUrls_failed_no_items:
  "r \<in> set (results (scrapeUrls pf S world bid ts urls cb)) \<Longrightarrow> \<not> success r \<Longrightarrow> items r = []"
  by (auto simp add: scrapeUrls_results dest: url_outcomes_failed_no_items)

lemma scrapeUrls_totalItems:
  "totalItems (scrapeUrls pf S world bid ts urls cb)
     = sum_list (map (\<lambda>r. length (items r))
         (filter success (results (scrapeUrls pf S world bid ts urls cb))))"
proof -
  let ?res = "scrapeUrls_loop pf S world cb (length urls) 0 urls []"
  have r: "results (scrapeUrls pf S world bid ts urls cb) = ?res"
    by (simp add: scrapeUrls_def createBatchResult_def Let_def)
  have "\<forall>r\<in>set ?res. \<not> success r \<longrightarrow> items r = []"
    using scrapeUrls_failed_no_items [of _ pf S world bid ts urls cb] r by auto
  then have "sum_list (map (\<lambda>r. length (items r)) ?res)
               = sum_list (map (\<lambda>r. length (items r)) (filter success ?res))"
    by (rule succeeded_item_count)
  then show ?thesis
    unfolding r by (simp add: scrapeUrls_def createBatchResult_totalItems)
qed

lemma quiet_outcomes:
  "returns_normally cb \<Longrightarrow> url_outcomes pf S world cb n i u = [scrapeUrlHttp pf S (world i) u]"
  by (cases cb) (simp_all add: returns_normally_def url_outcomes_def)

lemma concat_singletons: "concat (map (\<lambda>x. [f x]) xs) = map f xs"
  by (induction xs) auto

lemma scrapeUrls_quiet_results:
  assumes "returns_normally cb"
  shows "results (scrapeUrls pf S world bid ts urls cb)
           = map (\<lambda>(i, u). scrapeUrlHttp pf S (world i) u) (List.enumerate 0 urls)"
proof -
  have "(\<lambda>(i, u). url_outcomes pf S world cb (length urls) i u)
          = (\<lambda>x. [(\<lambda>(i, u). scrapeUrlHttp pf S (world i) u) x])"
    using quiet_outcomes [OF assms] by (auto simp add: fun_eq_iff)
  then show ?thesis
    by (simp add: scrapeUrls_results concat_singletons)
qed

lemma scrapeUrls_invariant:
  assumes "returns_normally cb"
  shows "totalUrls (scrapeUrls pf S world bid ts urls cb) = length urls
    \<and> length (results (scrapeUrls pf S world bid ts urls cb)) = length urls
    \<and> map url (results (scrapeUrls pf S world bid ts urls cb)) = urls
    \<and> successCount (scrapeUrls pf S world bid ts urls cb)
        + failedCount (scrapeUrls pf S world bid ts urls cb)
        = totalUrls (scrapeUrls pf S world bid ts urls cb)
    \<and> totalItems (scrapeUrls pf S world bid ts urls cb)
        = sum_list (map (\<lambda>r. length (items r))
            (filter success (results (scrapeUrls pf S world bid ts urls cb))))"
proof -
  let ?b = "scrapeUrls pf S world bid ts urls cb"
  have res: "results ?b = map (\<lambda>(i, u). scrapeUrlHttp pf S (world i) u) (List.enumerate 0 urls)"
    using assms by (rule scrapeUrls_quiet_results)
  have len: "length (results ?b) = length urls"
    by (simp add: res)
  have urls: "map url (results ?b) = urls"
    by (simp add: res scrapeUrlHttp_url case_prod_unfold enumerate_eq_zip comp_def)
  have tot: "totalUrls ?b = length urls"
    by (simp add: scrapeUrls_def createBatchResult_def Let_def)
  have cnt: "successCount ?b + failedCount ?b = length (results ?b)"
    by (simp add: scrapeUrls_def createBatchResult_def Let_def)
  show ?thesis
    using len urls tot cnt scrapeUrls_totalItems [of pf S world bid ts urls cb] by simp
qed

text \<open>
  C1. When the progress callback throws, the URL gets two records: the result that was
  already pushed and the failed record of the handler. For one URL, \<open>totalUrls\<close> is 1 while
  \<open>successCount + failedCount\<close> is 2. (With no callback, or one that returns normally, the
  batch has one record per URL, in order, and the counts add up: \<open>scrapeUrls_invariant\<close>.)
\<close>

theorem scrapeUrls_callback_throws:
  "totalUrls (scrapeUrls pf S world bid ts [u] (Some (\<lambda>i n. Some (Error (js ''progress failed''))))) = 1
   \<and> results (scrapeUrls pf S world bid ts [u] (Some (\<lambda>i n. Some (Error (js ''progress failed'')))))
       = [scrapeUrlHttp pf S (world 0) u, failed_result pf u (Error (js ''progress failed''))]
   \<and> successCount (scrapeUrls pf S world bid ts [u] (Some (\<lambda>i n. Some (Error (js ''progress failed'')))))
       + failedCount (scrapeUrls pf S world bid ts [u] (Some (\<lambda>i n. Some (Error (js ''progress failed'')))))
       = 2"
proof -
  let ?b = "scrapeUrls pf S world bid ts [u] (Some (\<lambda>i n. Some (Error (js ''progress failed''))))"
  have res: "results ?b = [scrapeUrlHttp pf S (world 0) u, failed_result pf u (Error (js ''progress failed''))]"
    by (simp add: scrapeUrls_results url_outcomes_def)
  have tot: "totalUrls ?b = 1"
    by (simp add: scrapeUrls_def createBatchResult_def Let_def)
  have "successCount ?b + failedCount ?b = length (results ?b)"
    by (simp add: scrapeUrls_def createBatchResult_def Let_def)
  with res tot show ?thesis by simp
qed


subsection \<open>No URL aborts the batch\<close>

lemma nth_enumerate_mem: "i < length us \<Longrightarrow> (k + i, us ! i) \<in> set (List.enumerate k us)"
  by (simp add: in_set_enumerate_eq)

text \<open>
  C3. An exception that leaves the \<open>try\<close> block of \<open>scrapeUrlHttp\<close> becomes the failed
  record of the URL: no success, no items, and as its error the message of the exception
  when it is an \<open>Error\<close>, \<open>Unknown error\<close> when it is some other value. The results of a
  batch are the outcomes of its URLs one after the other, in the order of the list, each
  computed from its own URL and what the world does at its index: every URL has the result
  of its own \<open>scrapeUrlHttp\<close> in the batch whatever happened to the URLs before it, an
  exception of the progress callback becomes a failed record of its URL, and every record
  belongs to a URL of the list. \<open>scrapeUrls\<close> has a batch as its value for every input.
\<close>

theorem no_url_aborts_batch:
  "(\<forall>e. scrapeUrlHttp_try pf S run u = Inl e \<longrightarrow> scrapeUrlHttp pf S run u = failed_result pf u e)
   \<and> \<not> success (failed_result pf u e) \<and> items (failed_result pf u e) = []
   \<and> error (failed_result pf u e) = Some (message_or (js ''Unknown error'') e)
   \<and> error (failed_result pf u (Error msg)) = Some msg
   \<and> error (failed_result pf u NonError) = Some (js ''Unknown error'')
   \<and> url (failed_result pf u e) = u
   \<and> responseTime (failed_result pf u e) = 0
   \<and> siteName (failed_result pf u e) = extractDomain pf u
   \<and> results (scrapeUrls pf S world bid ts urls cb)
       = concat (map (\<lambda>(i, u). url_outcomes pf S world cb (length urls) i u) (List.enumerate 0 urls))
   \<and> (\<forall>i<length urls. scrapeUrlHttp pf S (world i) (urls ! i)
                          \<in> set (results (scrapeUrls pf S world bid ts urls cb)))
   \<and> (\<forall>i<length urls. \<forall>f err. cb = Some f \<and> f (i + 1) (length urls) = Some err \<longrightarrow>
          failed_result pf (urls ! i) err \<in> set (results (scrapeUrls pf S world bid ts urls cb)))
   \<and> (\<forall>r\<in>set (results (scrapeUrls pf S world bid ts urls cb)). url r \<in> set urls)"
proof -
  let ?res = "results (scrapeUrls pf S world bid ts urls cb)"
  have a: "\<forall>e. scrapeUrlHttp_try pf S run u = Inl e \<longrightarrow> scrapeUrlHttp pf S run u = failed_result pf u e"
    by (simp add: scrapeUrlHttp_def failed_result_def)
  have b: "\<not> success (failed_result pf u e) \<and> items (failed_result pf u e) = []
     \<and> error (failed_result pf u e) = Some (message_or (js ''Unknown error'') e)
     \<and> error (failed_result pf u (Error msg)) = Some msg
     \<and> error (failed_result pf u NonError) = Some (js ''Unknown error'')
     \<and> url (failed_result pf u e) = u
     \<and> responseTime (failed_result pf u e) = 0
     \<and> siteName (failed_result pf u e) = extractDomain pf u"
    by (simp add: failed_result_def)
  have c: "?res = concat (map (\<lambda>(i, u). url_outcomes pf S world cb (length urls) i u) (List.enumerate 0 urls))"
    by (rule scrapeUrls_results)
  have mem: "set (url_outcomes pf S world cb (length urls) i (urls ! i)) \<subseteq> set ?res"
    if "i < length urls" for i
  proof -
    from that have "(i, urls ! i) \<in> set (List.enumerate 0 urls)"
      using nth_enumerate_mem [of i urls 0] by simp
    then show ?thesis
      unfolding c by auto
  qed
  have d: "\<forall>i<length urls. scrapeUrlHttp pf S (world i) (urls ! i) \<in> set ?res"
  proof (intro allI impI)
    fix i assume "i < length urls"
    from mem [OF this] show "scrapeUrlHttp pf S (world i) (urls ! i) \<in> set ?res"
      by (auto simp add: url_outcomes_def)
  qed
  have f: "\<forall>i<length urls. \<forall>f err. cb = Some f \<and> f (i + 1) (length urls) = Some err \<longrightarrow>
          failed_result pf (urls ! i) err \<in> set ?res"
  proof (intro allI impI)
    fix i f err
    assume i: "i < length urls" and "cb = Some f \<and> f (i + 1) (length urls) = Some err"
    then have "failed_result pf (urls ! i) err \<in> set (url_outcomes pf S world cb (length urls) i (urls ! i))"
      by (simp add: url_outcomes_def)
    with mem [OF i] show "failed_result pf (urls ! i) err \<in> set ?res"
      by blast
  qed
  have g: "\<forall>r\<in>set ?res. url r \<in> set urls"
    unfolding c by (auto dest: url_outcomes_url in_enumerate)
  show ?thesis
    using a b c d f g by blast
qed


lemmas example_defs = ascii_platform_def simple_hostname_def extractDomain_def shop_config_def
  shop_page_def listing_def text_element_def pubg_card_def blank_card_def quiet_browser_def
  crashing_browser_def solved_def bad_then_good_def

lemmas inpage_defs = extractItems_def inpage_function_def inpage_extract_def inpage_container_def
  inpage_title_price_def inpage_parsePrice_def
  inpage_isValidPrice_def inpage_sanitizeText_def inpage_detectRegion_def
  inpage_extractGameSlug_def fallback_rx_def str_split_def

lemma bad_url_throws:
  "scrapeUrlHttp_try ascii_platform (\<lambda>d. Some shop_config) (bad_then_good 0) (js ''https://bad.example/x'')
     = Inl (Error (js ''Target closed''))"
proof -
  have d: "extractDomain ascii_platform (js ''https://bad.example/x'') = js ''bad.example''"
    by (simp add: example_defs char_defs)
  have n: "js ''bad.example'' \<notin> FLARESOLVERR_REQUIRED_DOMAINS"
    by (simp add: FLARESOLVERR_REQUIRED_DOMAINS_def js_def code_def)
  show ?thesis
    by (simp add: scrapeUrlHttp_try_def new_scraper_def lookup_config_def d n Let_def
          PuppeteerScraper_close_def bad_then_good_def crashing_browser_def quiet_browser_def)
qed

lemma shop_items:
  "extractItems ascii_platform (Profile shop_config) (quiet_browser shop_page) (js ''https://shop.example/pubg'')
     = [\<lparr>item_title = js ''PUBG 60 UC'', item_price = js ''12,50 TL'', item_originalPrice = None,
         item_currency = js ''TRY'', item_region = js ''TR'', item_url = js ''https://shop.example/pubg'',
         item_siteName = js ''shop.example'', item_gameSlug = Some (js ''pubg'')\<rparr>]"
  by (simp add: inpage_defs example_defs char_defs regex_defs price_defs)

lemma good_url_succeeds:
  "success (scrapeUrlHttp ascii_platform (\<lambda>d. Some shop_config) (bad_then_good 1) (js ''https://shop.example/pubg''))
   \<and> length (items (scrapeUrlHttp ascii_platform (\<lambda>d. Some shop_config) (bad_then_good 1)
                      (js ''https://shop.example/pubg''))) = 1"
proof -
  have d: "extractDomain ascii_platform (js ''https://shop.example/pubg'') = js ''shop.example''"
    by (simp add: example_defs char_defs)
  have n: "js ''shop.example'' \<notin> FLARESOLVERR_REQUIRED_DOMAINS"
    by (simp add: FLARESOLVERR_REQUIRED_DOMAINS_def js_def code_def)
  have r: "scrapeUrlHttp ascii_platform (\<lambda>d. Some shop_config) (bad_then_good 1) (js ''https://shop.example/pubg'')
             = PuppeteerScraper_scrapeUrl ascii_platform (Profile shop_config) (quiet_browser shop_page)
                 (js ''https://shop.example/pubg'')"
    by (simp add: scrapeUrlHttp_def scrapeUrlHttp_try_def new_scraper_def lookup_config_def d n Let_def
          PuppeteerScraper_close_def bad_then_good_def quiet_browser_def)
  show ?thesis
    unfolding r by (simp add: PuppeteerScraper_scrapeUrl_def quiet_try shop_items)
qed

theorem no_url_aborts_batch_witness:
  "scrapeUrlHttp_try ascii_platform (\<lambda>d. Some shop_config) (bad_then_good 0) (js ''https://bad.example/x'')
     = Inl (Error (js ''Target closed''))
   \<and> results (scrapeUrls ascii_platform (\<lambda>d. Some shop_config) bad_then_good (js ''batch_1'') 0
                [js ''https://bad.example/x'', js ''https://shop.example/pubg''] None)
       = [failed_result ascii_platform (js ''https://bad.example/x'') (Error (js ''Target closed'')),
          scrapeUrlHttp ascii_platform (\<lambda>d. Some shop_config) (bad_then_good 1) (js ''https://shop.example/pubg'')]
   \<and> failed_result ascii_platform (js ''https://bad.example/x'') (Error (js ''Target closed''))
       = \<lparr>success = False, url = js ''https://bad.example/x'', items = [],
          error = Some (js ''Target closed''), responseTime = 0, siteName = js ''bad.example''\<rparr>
   \<and> success (scrapeUrlHttp ascii_platform (\<lambda>d. Some shop_config) (bad_then_good 1) (js ''https://shop.example/pubg''))
   \<and> length (items (scrapeUrlHttp ascii_platform (\<lambda>d. Some shop_config) (bad_then_good 1)
                      (js ''https://shop.example/pubg''))) = 1"
proof -
  have "scrapeUrlHttp ascii_platform (\<lambda>d. Some shop_config) (bad_then_good 0) (js ''https://bad.example/x'')
          = failed_result ascii_platform (js ''https://bad.example/x'') (Error (js ''Target closed''))"
    using no_url_aborts_batch [where pf = ascii_platform and S = "\<lambda>d. Some shop_config"
            and run = "bad_then_good 0" and u = "js ''https://bad.example/x''"] bad_url_throws
    by blast
  moreover have "results (scrapeUrls ascii_platform (\<lambda>d. Some shop_config) bad_then_good (js ''batch_1'') 0
                [js ''https://bad.example/x'', js ''https://shop.example/pubg''] None)
       = [scrapeUrlHttp ascii_platform (\<lambda>d. Some shop_config) (bad_then_good 0) (js ''https://bad.example/x''),
          scrapeUrlHttp ascii_platform (\<lambda>d. Some shop_config) (bad_then_good 1) (js ''https://shop.example/pubg'')]"
    using no_url_aborts_batch [where pf = ascii_platform and S = "\<lambda>d. Some shop_config"
            and world = bad_then_good and bid = "js ''batch_1''" and ts = 0
            and urls = "[js ''https://bad.example/x'', js ''https://shop.example/pubg'']" and cb = None]
    by (simp add: url_outcomes_def)
  moreover have "failed_result ascii_platform (js ''https://bad.example/x'') (Error (js ''Target closed''))
       = \<lparr>success = False, url = js ''https://bad.example/x'', items = [],
          error = Some (js ''Target closed''), responseTime = 0, siteName = js ''bad.example''\<rparr>"
    using no_url_aborts_batch [where pf = ascii_platform and u = "js ''https://bad.example/x''"
            and e = "Error (js ''Target closed'')" and msg = "js ''Target closed''"]
    by (simp add: example_defs char_defs failed_result_def)
  ultimately show ?thesis
    using bad_url_throws good_url_succeeds by simp
qed


subsection \<open>The payload of the delivery client\<close>

lemma N8NClient_parsePrice_eq: "N8NClient_parsePrice s = parsePrice s"
  by (simp add: N8NClient_parsePrice_def parsePrice_def)

lemma no_digit_not_positive: "no_digit (item_price item) \<Longrightarrow> \<not> reparses_positive item"
  by (simp add: reparses_positive_def N8NClient_parsePrice_eq parsePrice_no_digit)

lemma push_items_eq:
  "push_items ts its prices = prices @ map (to_ScrapedPrice ts) (filter reparses_positive its)"
  by (induction its arbitrary: prices)
     (auto simp add: Let_def to_ScrapedPrice_def reparses_positive_def)

lemma push_results_eq:
  "push_results ts res prices
     = prices @ map (to_ScrapedPrice ts)
         (filter reparses_positive (concat (map items (filter (\<lambda>r. success r \<and> items r \<noteq> []) res))))"
  by (induction res arbitrary: prices) (auto simp add: push_items_eq)

lemma length_concat_items:
  "length (concat (map items (filter P res))) \<le> sum_list (map (\<lambda>r. length (items r)) res)"
  by (induction res) auto

text \<open>
  C10. The items of the payload are the price records of exactly those items, taken in
  order from the results that succeeded with at least one item, whose price text parses
  again to a number above 0; an item whose price text has no digit parses to 0 and is
  left out. The metadata still carries \<open>totalItems\<close> of the batch, so for a batch built by
  \<open>createBatchResult\<close> the payload never has more items than its \<open>totalItems\<close>.
\<close>

theorem payload_keeps_positive_prices:
  "p_items (build_payload b)
     = map (to_ScrapedPrice (timestamp b))
         (filter reparses_positive
            (concat (map items (filter (\<lambda>r. success r \<and> items r \<noteq> []) (results b)))))
   \<and> (\<forall>item. no_digit (item_price item) \<longrightarrow> \<not> reparses_positive item)
   \<and> m_totalItems (p_metadata (build_payload b)) = totalItems b
   \<and> length (p_items (build_payload (createBatchResult urls res bid ts)))
       \<le> m_totalItems (p_metadata (build_payload (createBatchResult urls res bid ts)))"
proof -
  have a: "p_items (build_payload b)
     = map (to_ScrapedPrice (timestamp b))
         (filter reparses_positive
            (concat (map items (filter (\<lambda>r. success r \<and> items r \<noteq> []) (results b)))))" for b
    by (simp add: build_payload_def push_results_eq)
  have c: "m_totalItems (p_metadata (build_payload b)) = totalItems b" for b
    by (simp add: build_payload_def)
  let ?b = "createBatchResult urls res bid ts"
  have r: "results ?b = res"
    by (simp add: createBatchResult_def Let_def)
  have "length (p_items (build_payload ?b))
          \<le> length (concat (map items (filter (\<lambda>r. success r \<and> items r \<noteq> []) res)))"
    unfolding a r by simp
  also have "\<dots> \<le> sum_list (map (\<lambda>r. length (items r)) res)"
    by (rule length_concat_items)
  finally have d: "length (p_items (build_payload ?b)) \<le> m_totalItems (p_metadata (build_payload ?b))"
    by (simp add: c createBatchResult_totalItems)
  show ?thesis
    using a [of b] c [of b] d no_digit_not_positive by blast
qed


lemma reparse_examples:
  "N8NClient_parsePrice (js ''12,50 TL'') = \<lparr>pp_price = Num (25 / 2), pp_currency = js ''TRY''\<rparr>"
  "no_digit (js ''ask us'')"
  by (simp_all add: N8NClient_parsePrice_def no_digit_def char_defs regex_defs price_defs)

theorem payload_keeps_positive_prices_witness:
  "no_digit (item_price unpriced_item)
   \<and> p_items (build_payload (createBatchResult [js ''https://shop.example/pubg''] [mixed_result] (js ''batch_1'') 0))
       = [\<lparr>sp_price = Num (25 / 2), sp_currency = js ''TRY'', sp_region = js ''TR'',
           sp_product_name = js ''PUBG 60 UC'', sp_url = js ''https://shop.example/pubg'',
           sp_batch_timestamp = 0\<rparr>]
   \<and> m_totalItems (p_metadata (build_payload
         (createBatchResult [js ''https://shop.example/pubg''] [mixed_result] (js ''batch_1'') 0))) = 2"
proof -
  let ?b = "createBatchResult [js ''https://shop.example/pubg''] [mixed_result] (js ''batch_1'') 0"
  have nd: "no_digit (item_price unpriced_item)"
    by (simp add: unpriced_item_def reparse_examples)
  have pos: "reparses_positive priced_item"
    by (simp add: reparses_positive_def priced_item_def reparse_examples)
  have res: "results ?b = [mixed_result]" "timestamp ?b = 0" "totalItems ?b = 2"
    by (simp_all add: createBatchResult_def Let_def mixed_result_def)
  have neg: "\<not> reparses_positive unpriced_item"
    using payload_keeps_positive_prices [of ?b] nd by blast
  have "p_items (build_payload ?b)
          = map (to_ScrapedPrice 0)
              (filter reparses_positive
                 (concat (map items (filter (\<lambda>r. success r \<and> items r \<noteq> []) [mixed_result]))))"
    using payload_keeps_positive_prices [of ?b] by (simp add: res)
  then have "p_items (build_payload ?b) = [to_ScrapedPrice 0 priced_item]"
    using pos neg by (simp add: mixed_result_def)
  moreover have "m_totalItems (p_metadata (build_payload ?b)) = 2"
    using payload_keeps_positive_prices [of ?b] by (simp add: res)
  ultimately show ?thesis
    using nd by (simp add: to_ScrapedPrice_def priced_item_def reparse_examples)
qed


subsection \<open>Extraction inside the page\<close>

lemma forEach_containers_source:
  "item \<in> set (forEach_containers pf config u d els idx res) \<Longrightarrow>
     item \<in> set res \<or> (\<exists>el\<in>set els. inpage_container pf config u d el = Inr (Some item))"
proof (induction els arbitrary: idx res)
  case Nil
  then show ?case by simp
next
  case (Cons el els)
  from Cons.prems have "item \<in> set (forEach_containers pf config u d els (Suc idx)
       (if idx > 50 then res
        else (case inpage_container pf config u d el of
                Inr (Some item) \<Rightarrow> res @ [item] | Inr None \<Rightarrow> res | Inl e \<Rightarrow> res)))"
    by simp
  from Cons.IH [OF this] show ?case
    by (auto split: if_splits sum.splits option.splits)
qed

lemma inpage_container_skip:
  "inpage_title_price config el = Inr (t, p) \<Longrightarrow>
     length t \<le> 3 \<or> p = [] \<or> \<not> inpage_isValidPrice (pp_price (inpage_parsePrice pf p)) \<Longrightarrow>
     inpage_container pf config u d el = Inr None"
  by (auto simp add: inpage_container_def Let_def)

lemma inpage_container_push:
  "inpage_title_price config el = Inr (t, p) \<Longrightarrow> length t > 3 \<Longrightarrow> p \<noteq> [] \<Longrightarrow>
     inpage_isValidPrice (pp_price (inpage_parsePrice pf p)) \<Longrightarrow>
     inpage_container pf config u d el
       = Inr (Some \<lparr>item_title = inpage_sanitizeText t,
                     item_price = p,
                     item_originalPrice = None,
                     item_currency = pp_currency (inpage_parsePrice pf p),
                     item_region = inpage_detectRegion pf u t,
                     item_url = u,
                     item_siteName = d,
                     item_gameSlug = Some (inpage_extractGameSlug pf u t)\<rparr>)"
  by (auto simp add: inpage_container_def Let_def)

lemma inpage_container_throw:
  "inpage_title_price config el = Inl e \<Longrightarrow> inpage_container pf config u d el = Inl e"
  by (simp add: inpage_container_def)

lemma inpage_container_item:
  assumes "inpage_container pf config u d el = Inr (Some item)"
  shows "\<exists>t p. inpage_title_price config el = Inr (t, p) \<and> length t > 3 \<and> p \<noteq> []
     \<and> inpage_isValidPrice (pp_price (inpage_parsePrice pf p))
     \<and> item_title item = inpage_sanitizeText t \<and> item_price item = p"
  using assms
  by (auto simp add: inpage_container_def Let_def split: sum.splits prod.splits if_splits)

lemma forEach_containers_pass:
  "\<forall>item. inpage_container pf config u d el \<noteq> Inr (Some item) \<Longrightarrow>
     forEach_containers pf config u d (el # els) idx res
       = forEach_containers pf config u d els (Suc idx) res"
  by (auto split: sum.splits option.splits)

lemma title_price_selectors:
  "first_text el (str_split (sel_title (cfg_selectors config)) (js '', '')) = Inr t0 \<Longrightarrow>
   first_text el (str_split (sel_price (cfg_selectors config)) (js '', '')) = Inr p0 \<Longrightarrow>
   (t0 \<noteq> [] \<and> p0 \<noteq> []) \<or> rx_exec fallback_rx (el_text el) = None \<Longrightarrow>
   inpage_title_price config el = Inr (t0, p0)"
  by (auto simp add: inpage_title_price_def)

lemma title_price_fallback_price:
  "first_text el (str_split (sel_title (cfg_selectors config)) (js '', '')) = Inr t0 \<Longrightarrow>
   first_text el (str_split (sel_price (cfg_selectors config)) (js '', '')) = Inr [] \<Longrightarrow>
   t0 \<noteq> [] \<Longrightarrow> rx_exec fallback_rx (el_text el) = Some m \<Longrightarrow>
   inpage_title_price config el = Inr (t0, whole m)"
  by (simp add: inpage_title_price_def)

lemma title_price_fallback_both:
  "first_text el (str_split (sel_title (cfg_selectors config)) (js '', '')) = Inr [] \<Longrightarrow>
   first_text el (str_split (sel_price (cfg_selectors config)) (js '', '')) = Inr p0 \<Longrightarrow>
   rx_exec fallback_rx (el_text el) = Some m \<Longrightarrow>
   str_split (el_text el) (whole m) = piece # pieces \<Longrightarrow>
   inpage_title_price config el = Inr (take 100 (str_trim piece), whole m)"
  by (simp add: inpage_title_price_def)

lemma container_loop_skip:
  "\<forall>s\<in>set before. \<exists>cs. doc_query doc s = Inr cs \<and> forEach_containers pf config u d cs 0 [] = []
   \<Longrightarrow> container_loop pf config u d doc (before @ rest) []
       = container_loop pf config u d doc rest []"
  by (induction before) (auto simp add: Let_def)

lemma container_loop_stop:
  "doc_query doc sel = Inr cs \<Longrightarrow> forEach_containers pf config u d cs 0 [] \<noteq> []
   \<Longrightarrow> container_loop pf config u d doc (sel # after) [] = Inr (forEach_containers pf config u d cs 0 [])"
  by (cases cs) (auto simp add: Let_def)

lemma container_loop_origin:
  "container_loop pf config u d doc sels [] = Inr its \<Longrightarrow> its \<noteq> [] \<Longrightarrow>
     \<exists>before sel after cs. sels = before @ sel # after
        \<and> doc_query doc sel = Inr cs
        \<and> its = forEach_containers pf config u d cs 0 []
        \<and> (\<forall>s\<in>set before. \<exists>cs'. doc_query doc s = Inr cs'
               \<and> forEach_containers pf config u d cs' 0 [] = [])"
proof (induction sels)
  case Nil
  then show ?case by simp
next
  case (Cons s sels)
  from Cons.prems(1) obtain cs where q: "doc_query doc s = Inr cs"
    by (cases "doc_query doc s") auto
  show ?case
  proof (cases "forEach_containers pf config u d cs 0 [] = []")
    case True
    with q Cons.prems(1) have "container_loop pf config u d doc sels [] = Inr its"
      by (cases cs) (auto simp add: Let_def)
    from Cons.IH [OF this Cons.prems(2)] obtain before sel after cs' where
      d: "sels = before @ sel # after" "doc_query doc sel = Inr cs'"
         "its = forEach_containers pf config u d cs' 0 []"
         "\<forall>s\<in>set before. \<exists>cs'. doc_query doc s = Inr cs'
               \<and> forEach_containers pf config u d cs' 0 [] = []"
      by blast
    have "s # sels = (s # before) @ sel # after"
      using d(1) by simp
    moreover have "\<forall>x\<in>set (s # before). \<exists>cs'. doc_query doc x = Inr cs'
               \<and> forEach_containers pf config u d cs' 0 [] = []"
      using d(4) q True by auto
    ultimately show ?thesis
      using d(2,3) by blast
  next
    case False
    with q have "container_loop pf config u d doc (s # sels) []
                   = Inr (forEach_containers pf config u d cs 0 [])"
      by (rule container_loop_stop [OF _ ])
    with Cons.prems(1) have "its = forEach_containers pf config u d cs 0 []"
      by simp
    with q have "s # sels = [] @ s # sels \<and> doc_query doc s = Inr cs
        \<and> its = forEach_containers pf config u d cs 0 []
        \<and> (\<forall>x\<in>set []. \<exists>cs'. doc_query doc x = Inr cs'
               \<and> forEach_containers pf config u d cs' 0 [] = [])"
      by simp
    then show ?thesis by blast
  qed
qed

text \<open>
  C9, as the code has it. The container selectors are tried in order, and the loop ends
  with the first selector whose containers produce at least one item: a selector whose
  matches produce no item is passed over like a selector without matches, and the
  selectors after the one that produced items are not consulted. Every item comes from a
  container matched by that selector. A container from which the body derives the title
  \<open>t\<close> and the price text \<open>p\<close> is skipped when \<open>t\<close> has at most 3 characters, when \<open>p\<close> is
  empty or when the parsed price of \<open>p\<close> is not valid, and it gives the item with the
  cleaned \<open>t\<close> as title and \<open>p\<close> as price otherwise; a container on which the derivation
  throws is skipped too, and a skipped container leaves the results as they are. The
  derived title and price text are the texts found by the selectors of the profile when
  both are found or the fallback pattern does not match the text of the container; when
  the pattern matches, the price text is the match, and a title that the selectors did
  not find is the text before the match, trimmed and cut to 100 characters.
\<close>

theorem first_selector_with_items:
  "(\<forall>before sel after cs.
       str_split (sel_container (cfg_selectors config)) (js '', '') = before @ sel # after
       \<and> (\<forall>s\<in>set before. \<exists>cs'. doc_query doc s = Inr cs'
              \<and> forEach_containers pf config u d cs' 0 [] = [])
       \<and> doc_query doc sel = Inr cs
       \<and> forEach_containers pf config u d cs 0 [] \<noteq> []
       \<longrightarrow> inpage_extract pf config u d doc = Inr (forEach_containers pf config u d cs 0 []))
   \<and> (\<forall>its. inpage_extract pf config u d doc = Inr its \<and> its \<noteq> [] \<longrightarrow>
         (\<exists>before sel after cs.
            str_split (sel_container (cfg_selectors config)) (js '', '') = before @ sel # after
            \<and> doc_query doc sel = Inr cs
            \<and> its = forEach_containers pf config u d cs 0 []
            \<and> (\<forall>s\<in>set before. \<exists>cs'. doc_query doc s = Inr cs'
                   \<and> forEach_containers pf config u d cs' 0 [] = [])))
   \<and> (\<forall>cs item. item \<in> set (forEach_containers pf config u d cs 0 []) \<longrightarrow>
         (\<exists>el\<in>set cs. inpage_container pf config u d el = Inr (Some item)))
   \<and> (\<forall>el t p. inpage_title_price config el = Inr (t, p)
         \<and> (length t \<le> 3 \<or> p = [] \<or> \<not> inpage_isValidPrice (pp_price (inpage_parsePrice pf p)))
         \<longrightarrow> inpage_container pf config u d el = Inr None)
   \<and> (\<forall>el t p. inpage_title_price config el = Inr (t, p)
         \<and> length t > 3 \<and> p \<noteq> [] \<and> inpage_isValidPrice (pp_price (inpage_parsePrice pf p))
         \<longrightarrow> inpage_container pf config u d el
               = Inr (Some \<lparr>item_title = inpage_sanitizeText t,
                           item_price = p,
                           item_originalPrice = None,
                           item_currency = pp_currency (inpage_parsePrice pf p),
                           item_region = inpage_detectRegion pf u t,
                           item_url = u,
                           item_siteName = d,
                           item_gameSlug = Some (inpage_extractGameSlug pf u t)\<rparr>))
   \<and> (\<forall>el e. inpage_title_price config el = Inl e \<longrightarrow> inpage_container pf config u d el = Inl e)
   \<and> (\<forall>el item. inpage_container pf config u d el = Inr (Some item) \<longrightarrow>
         (\<exists>t p. inpage_title_price config el = Inr (t, p) \<and> length t > 3 \<and> p \<noteq> []
            \<and> inpage_isValidPrice (pp_price (inpage_parsePrice pf p))
            \<and> item_title item = inpage_sanitizeText t \<and> item_price item = p))
   \<and> (\<forall>el els idx res. (\<forall>item. inpage_container pf config u d el \<noteq> Inr (Some item)) \<longrightarrow>
         forEach_containers pf config u d (el # els) idx res
           = forEach_containers pf config u d els (Suc idx) res)
   \<and> (\<forall>el t0 p0.
         first_text el (str_split (sel_title (cfg_selectors config)) (js '', '')) = Inr t0
         \<and> first_text el (str_split (sel_price (cfg_selectors config)) (js '', '')) = Inr p0
         \<and> ((t0 \<noteq> [] \<and> p0 \<noteq> []) \<or> rx_exec fallback_rx (el_text el) = None)
         \<longrightarrow> inpage_title_price config el = Inr (t0, p0))
   \<and> (\<forall>el t0 m.
         first_text el (str_split (sel_title (cfg_selectors config)) (js '', '')) = Inr t0
         \<and> first_text el (str_split (sel_price (cfg_selectors config)) (js '', '')) = Inr []
         \<and> t0 \<noteq> [] \<and> rx_exec fallback_rx (el_text el) = Some m
         \<longrightarrow> inpage_title_price config el = Inr (t0, whole m))
   \<and> (\<forall>el p0 m piece pieces.
         first_text el (str_split (sel_title (cfg_selectors config)) (js '', '')) = Inr []
         \<and> first_text el (str_split (sel_price (cfg_selectors config)) (js '', '')) = Inr p0
         \<and> rx_exec fallback_rx (el_text el) = Some m
         \<and> str_split (el_text el) (whole m) = piece # pieces
         \<longrightarrow> inpage_title_price config el = Inr (take 100 (str_trim piece), whole m))"
proof -
  have a_: "\<forall>before sel after cs.
       str_split (sel_container (cfg_selectors config)) (js '', '') = before @ sel # after
       \<and> (\<forall>s\<in>set before. \<exists>cs'. doc_query doc s = Inr cs'
              \<and> forEach_containers pf config u d cs' 0 [] = [])
       \<and> doc_query doc sel = Inr cs
       \<and> forEach_containers pf config u d cs 0 [] \<noteq> []
       \<longrightarrow> inpage_extract pf config u d doc = Inr (forEach_containers pf config u d cs 0 [])"
    by (auto simp add: inpage_extract_def container_loop_skip container_loop_stop)
  have b_: "\<forall>its. inpage_extract pf config u d doc = Inr its \<and> its \<noteq> [] \<longrightarrow>
         (\<exists>before sel after cs.
            str_split (sel_container (cfg_selectors config)) (js '', '') = before @ sel # after
            \<and> doc_query doc sel = Inr cs
            \<and> its = forEach_containers pf config u d cs 0 []
            \<and> (\<forall>s\<in>set before. \<exists>cs'. doc_query doc s = Inr cs'
                   \<and> forEach_containers pf config u d cs' 0 [] = []))"
    unfolding inpage_extract_def using container_loop_origin by blast
  have c_: "\<forall>cs item. item \<in> set (forEach_containers pf config u d cs 0 []) \<longrightarrow>
         (\<exists>el\<in>set cs. inpage_container pf config u d el = Inr (Some item))"
    using forEach_containers_source [of _ pf config u d _ 0 "[]"] by auto
  have skip_: "\<forall>el t p. inpage_title_price config el = Inr (t, p)
         \<and> (length t \<le> 3 \<or> p = [] \<or> \<not> inpage_isValidPrice (pp_price (inpage_parsePrice pf p)))
         \<longrightarrow> inpage_container pf config u d el = Inr None"
    using inpage_container_skip by blast
  have push_: "\<forall>el t p. inpage_title_price config el = Inr (t, p)
         \<and> length t > 3 \<and> p \<noteq> [] \<and> inpage_isValidPrice (pp_price (inpage_parsePrice pf p))
         \<longrightarrow> inpage_container pf config u d el
               = Inr (Some \<lparr>item_title = inpage_sanitizeText t,
                           item_price = p,
                           item_originalPrice = None,
                           item_currency = pp_currency (inpage_parsePrice pf p),
                           item_region = inpage_detectRegion pf u t,
                           item_url = u,
                           item_siteName = d,
                           item_gameSlug = Some (inpage_extractGameSlug pf u t)\<rparr>)"
    using inpage_container_push by blast
  have throw_: "\<forall>el e. inpage_title_price config el = Inl e \<longrightarrow> inpage_container pf config u d el = Inl e"
    using inpage_container_throw by blast
  have origin_: "\<forall>el item. inpage_container pf config u d el = Inr (Some item) \<longrightarrow>
         (\<exists>t p. inpage_title_price config el = Inr (t, p) \<and> length t > 3 \<and> p \<noteq> []
            \<and> inpage_isValidPrice (pp_price (inpage_parsePrice pf p))
            \<and> item_title item = inpage_sanitizeText t \<and> item_price item = p)"
    using inpage_container_item by blast
  have pass_: "\<forall>el els idx res. (\<forall>item. inpage_container pf config u d el \<noteq> Inr (Some item)) \<longrightarrow>
         forEach_containers pf config u d (el # els) idx res
           = forEach_containers pf config u d els (Suc idx) res"
    using forEach_containers_pass by blast
  have sel_: "\<forall>el t0 p0.
         first_text el (str_split (sel_title (cfg_selectors config)) (js '', '')) = Inr t0
         \<and> first_text el (str_split (sel_price (cfg_selectors config)) (js '', '')) = Inr p0
         \<and> ((t0 \<noteq> [] \<and> p0 \<noteq> []) \<or> rx_exec fallback_rx (el_text el) = None)
         \<longrightarrow> inpage_title_price config el = Inr (t0, p0)"
    using title_price_selectors by blast
  have fbp_: "\<forall>el t0 m.
         first_text el (str_split (sel_title (cfg_selectors config)) (js '', '')) = Inr t0
         \<and> first_text el (str_split (sel_price (cfg_selectors config)) (js '', '')) = Inr []
         \<and> t0 \<noteq> [] \<and> rx_exec fallback_rx (el_text el) = Some m
         \<longrightarrow> inpage_title_price config el = Inr (t0, whole m)"
    using title_price_fallback_price by blast
  have fbb_: "\<forall>el p0 m piece pieces.
         first_text el (str_split (sel_title (cfg_selectors config)) (js '', '')) = Inr []
         \<and> first_text el (str_split (sel_price (cfg_selectors config)) (js '', '')) = Inr p0
         \<and> rx_exec fallback_rx (el_text el) = Some m
         \<and> str_split (el_text el) (whole m) = piece # pieces
         \<longrightarrow> inpage_title_price config el = Inr (take 100 (str_trim piece), whole m)"
    using title_price_fallback_both by blast
  show ?thesis
    apply (intro conjI)
    apply (rule a_)
    apply (rule b_)
    apply (rule c_)
    apply (rule skip_)
    apply (rule push_)
    apply (rule throw_)
    apply (rule origin_)
    apply (rule pass_)
    apply (rule sel_)
    apply (rule fbp_)
    apply (rule fbb_)
    done
qed


lemma pubg_card_item:
  "inpage_container ascii_platform shop_config (js ''https://shop.example/pubg'') (js ''shop.example'')
     pubg_card = Inr (Some priced_item)"
  by (simp add: inpage_defs example_defs priced_item_def char_defs regex_defs price_defs)

lemma blank_card_item:
  "inpage_container ascii_platform shop_config (js ''https://shop.example/pubg'') (js ''shop.example'')
     blank_card = Inr None"
  by (simp add: inpage_defs example_defs char_defs regex_defs price_defs)

lemma two_step_queries:
  "str_split (sel_container (cfg_selectors shop_config)) (js '', '') = [js ''.card'', js ''tr'']"
  "doc_query two_step_page (js ''.card'') = Inr [blank_card]"
  "doc_query two_step_page (js ''tr'') = Inr [pubg_card]"
  by (simp_all add: shop_config_def two_step_page_def listing_def str_split_def char_defs)

lemma two_step_extract:
  "inpage_extract ascii_platform shop_config (js ''https://shop.example/pubg'') (js ''shop.example'')
     two_step_page = Inr [priced_item]"
  by (simp add: inpage_extract_def two_step_queries pubg_card_item blank_card_item)

lemma cards_title_price:
  "inpage_title_price shop_config pubg_card = Inr (js ''PUBG 60 UC'', js ''12,50 TL'')"
  "inpage_title_price shop_config short_card = Inr (js ''UC'', js ''12,50 TL'')"
  "inpage_title_price shop_config priceless_card = Inr (js ''PUBG 60 UC'', [])"
  "inpage_title_price shop_config free_card = Inr (js ''PUBG 60 UC'', js ''0 TL'')"
  "inpage_title_price shop_config blank_card = Inr ([], [])"
  by (simp_all add: inpage_defs example_defs short_card_def priceless_card_def free_card_def
        char_defs regex_defs price_defs)

lemma text_card_parts:
  "first_text text_card (str_split (sel_title (cfg_selectors shop_config)) (js '', '')) = Inr []"
  "first_text text_card (str_split (sel_price (cfg_selectors shop_config)) (js '', '')) = Inr []"
  "rx_exec fallback_rx (el_text text_card) = Some \<lparr>whole = js ''12,50 TL'', group1 = Some (js ''12,50'')\<rparr>"
  "str_split (el_text text_card) (js ''12,50 TL'') = [js ''PUBG 60 UC '', []]"
  by (simp_all add: inpage_defs example_defs text_card_def char_defs regex_defs price_defs)

lemma card_prices:
  "inpage_isValidPrice (pp_price (inpage_parsePrice ascii_platform (js ''12,50 TL'')))"
  "\<not> inpage_isValidPrice (pp_price (inpage_parsePrice ascii_platform (js ''0 TL'')))"
  by (simp_all add: inpage_defs example_defs char_defs regex_defs price_defs)

lemma priced_item_built:
  "\<lparr>item_title = inpage_sanitizeText (js ''PUBG 60 UC''),
    item_price = js ''12,50 TL'',
    item_originalPrice = None,
    item_currency = pp_currency (inpage_parsePrice ascii_platform (js ''12,50 TL'')),
    item_region = inpage_detectRegion ascii_platform (js ''https://shop.example/pubg'') (js ''PUBG 60 UC''),
    item_url = js ''https://shop.example/pubg'',
    item_siteName = js ''shop.example'',
    item_gameSlug = Some (inpage_extractGameSlug ascii_platform (js ''https://shop.example/pubg'') (js ''PUBG 60 UC''))\<rparr>
   = priced_item"
  by (simp add: inpage_defs example_defs priced_item_def char_defs regex_defs price_defs)

lemma trimmed_piece: "take 100 (str_trim (js ''PUBG 60 UC '')) = js ''PUBG 60 UC''"
  by (simp add: char_defs price_defs)


text \<open>
  C9, as the claim states it, fails: on a page where the first selector matches a card
  without content and the second selector matches a priced card, the loop does not stop at
  the first selector, and the item of the second selector is returned.
\<close>

theorem stops_at_first_match_counterexample:
  "str_split (sel_container (cfg_selectors shop_config)) (js '', '') = [js ''.card'', js ''tr'']
   \<and> doc_query two_step_page (js ''.card'') = Inr [blank_card]
   \<and> forEach_containers ascii_platform shop_config (js ''https://shop.example/pubg'') (js ''shop.example'')
        [blank_card] 0 [] = []
   \<and> doc_query two_step_page (js ''tr'') = Inr [pubg_card]
   \<and> inpage_extract ascii_platform shop_config (js ''https://shop.example/pubg'') (js ''shop.example'')
        two_step_page = Inr [priced_item]
   \<and> inpage_extract ascii_platform shop_config (js ''https://shop.example/pubg'') (js ''shop.example'')
        two_step_page
       \<noteq> Inr (forEach_containers ascii_platform shop_config (js ''https://shop.example/pubg'')
                (js ''shop.example'') [blank_card] 0 [])"
  by (simp add: two_step_queries two_step_extract blank_card_item)

theorem first_selector_with_items_witness:
  "str_split (sel_container (cfg_selectors shop_config)) (js '', '') = [js ''.card''] @ js ''tr'' # []
   \<and> doc_query two_step_page (js ''.card'') = Inr [blank_card]
   \<and> forEach_containers ascii_platform shop_config (js ''https://shop.example/pubg'') (js ''shop.example'')
        [blank_card] 0 [] = []
   \<and> doc_query two_step_page (js ''tr'') = Inr [pubg_card]
   \<and> forEach_containers ascii_platform shop_config (js ''https://shop.example/pubg'') (js ''shop.example'')
        [pubg_card] 0 [] = [priced_item]
   \<and> inpage_extract ascii_platform shop_config (js ''https://shop.example/pubg'') (js ''shop.example'')
        two_step_page = Inr [priced_item]
   \<and> inpage_title_price shop_config pubg_card = Inr (js ''PUBG 60 UC'', js ''12,50 TL'')
   \<and> length (js ''PUBG 60 UC'') > 3
   \<and> js ''12,50 TL'' \<noteq> []
   \<and> inpage_isValidPrice (pp_price (inpage_parsePrice ascii_platform (js ''12,50 TL'')))
   \<and> inpage_container ascii_platform shop_config (js ''https://shop.example/pubg'') (js ''shop.example'')
        pubg_card = Inr (Some priced_item)
   \<and> item_title priced_item = inpage_sanitizeText (js ''PUBG 60 UC'')
   \<and> item_price priced_item = js ''12,50 TL''
   \<and> inpage_title_price shop_config short_card = Inr (js ''UC'', js ''12,50 TL'')
   \<and> length (js ''UC'') \<le> 3
   \<and> inpage_container ascii_platform shop_config (js ''https://shop.example/pubg'') (js ''shop.example'')
        short_card = Inr None
   \<and> inpage_title_price shop_config priceless_card = Inr (js ''PUBG 60 UC'', [])
   \<and> inpage_container ascii_platform shop_config (js ''https://shop.example/pubg'') (js ''shop.example'')
        priceless_card = Inr None
   \<and> inpage_title_price shop_config free_card = Inr (js ''PUBG 60 UC'', js ''0 TL'')
   \<and> \<not> inpage_isValidPrice (pp_price (inpage_parsePrice ascii_platform (js ''0 TL'')))
   \<and> inpage_container ascii_platform shop_config (js ''https://shop.example/pubg'') (js ''shop.example'')
        free_card = Inr None
   \<and> first_text text_card (str_split (sel_title (cfg_selectors shop_config)) (js '', '')) = Inr []
   \<and> first_text text_card (str_split (sel_price (cfg_selectors shop_config)) (js '', '')) = Inr []
   \<and> rx_exec fallback_rx (el_text text_card)
       = Some \<lparr>whole = js ''12,50 TL'', group1 = Some (js ''12,50'')\<rparr>
   \<and> str_split (el_text text_card) (js ''12,50 TL'') = [js ''PUBG 60 UC '', []]
   \<and> inpage_title_price shop_config text_card = Inr (js ''PUBG 60 UC'', js ''12,50 TL'')
   \<and> inpage_container ascii_platform shop_config (js ''https://shop.example/pubg'') (js ''shop.example'')
        text_card = Inr (Some priced_item)
   \<and> forEach_containers ascii_platform shop_config (js ''https://shop.example/pubg'') (js ''shop.example'')
        [short_card, priceless_card, free_card, text_card] 0 [] = [priced_item]"
proof -
  let ?u = "js ''https://shop.example/pubg''"
  let ?d = "js ''shop.example''"
  note T = first_selector_with_items [where config = shop_config and doc = two_step_page
      and pf = ascii_platform and u = ?u and d = ?d]
  note stop = T [THEN conjunct1]
  note skip = T [THEN conjunct2, THEN conjunct2, THEN conjunct2, THEN conjunct1]
  note push = T [THEN conjunct2, THEN conjunct2, THEN conjunct2, THEN conjunct2, THEN conjunct1]
  note origin = T [THEN conjunct2, THEN conjunct2, THEN conjunct2, THEN conjunct2, THEN conjunct2,
      THEN conjunct2, THEN conjunct1]
  note pass = T [THEN conjunct2, THEN conjunct2, THEN conjunct2, THEN conjunct2, THEN conjunct2,
      THEN conjunct2, THEN conjunct2, THEN conjunct1]
  note both = T [THEN conjunct2, THEN conjunct2, THEN conjunct2, THEN conjunct2, THEN conjunct2,
      THEN conjunct2, THEN conjunct2, THEN conjunct2, THEN conjunct2, THEN conjunct2]
  have sp: "str_split (sel_container (cfg_selectors shop_config)) (js '', '') = [js ''.card''] @ js ''tr'' # []"
    by (simp add: two_step_queries)
  have len: "length (js ''PUBG 60 UC'') > 3" "js ''12,50 TL'' \<noteq> []" "length (js ''UC'') \<le> 3"
    by (simp_all add: char_defs)
  have pubg_c: "inpage_container ascii_platform shop_config ?u ?d pubg_card = Inr (Some priced_item)"
    using push cards_title_price(1) len(1,2) card_prices(1) priced_item_built by simp
  have short_c: "inpage_container ascii_platform shop_config ?u ?d short_card = Inr None"
    using skip cards_title_price(2) len(3) by blast
  have priceless_c: "inpage_container ascii_platform shop_config ?u ?d priceless_card = Inr None"
    using skip cards_title_price(3) by blast
  have free_c: "inpage_container ascii_platform shop_config ?u ?d free_card = Inr None"
    using skip cards_title_price(4) card_prices(2) by blast
  have blank_c: "inpage_container ascii_platform shop_config ?u ?d blank_card = Inr None"
    using skip [rule_format, of blank_card "[]" "[]"] cards_title_price(5) by simp
  have text_tp: "inpage_title_price shop_config text_card = Inr (js ''PUBG 60 UC'', js ''12,50 TL'')"
    using both [rule_format, of text_card "[]"
        "\<lparr>whole = js ''12,50 TL'', group1 = Some (js ''12,50'')\<rparr>" "js ''PUBG 60 UC ''" "[[]]"]
      text_card_parts trimmed_piece
    by simp
  have text_c: "inpage_container ascii_platform shop_config ?u ?d text_card = Inr (Some priced_item)"
    using push text_tp len(1,2) card_prices(1) priced_item_built by simp
  have titles: "item_title priced_item = inpage_sanitizeText (js ''PUBG 60 UC'')"
      "item_price priced_item = js ''12,50 TL''"
    using origin [rule_format, OF pubg_c] cards_title_price(1) by auto
  have blank: "forEach_containers ascii_platform shop_config ?u ?d [blank_card] 0 [] = []"
    using pass [rule_format, of blank_card "[]" 0 "[]"] blank_c by simp
  have pubg: "forEach_containers ascii_platform shop_config ?u ?d [pubg_card] 0 [] = [priced_item]"
    by (simp add: pubg_c)
  have before: "\<forall>s\<in>set [js ''.card'']. \<exists>cs'. doc_query two_step_page s = Inr cs'
          \<and> forEach_containers ascii_platform shop_config ?u ?d cs' 0 [] = []"
    using blank by (simp add: two_step_queries)
  have ne: "forEach_containers ascii_platform shop_config ?u ?d [pubg_card] 0 [] \<noteq> []"
    unfolding pubg by simp
  have ex: "inpage_extract ascii_platform shop_config ?u ?d two_step_page
              = Inr (forEach_containers ascii_platform shop_config ?u ?d [pubg_card] 0 [])"
    using stop sp before two_step_queries(3) ne
    by blast
  have four: "forEach_containers ascii_platform shop_config ?u ?d
        [short_card, priceless_card, free_card, text_card] 0 [] = [priced_item]"
    using pass [rule_format, of short_card "[priceless_card, free_card, text_card]" 0 "[]"]
      pass [rule_format, of priceless_card "[free_card, text_card]" 1 "[]"]
      pass [rule_format, of free_card "[text_card]" 2 "[]"]
      short_c priceless_c free_c text_c
    by simp
  show ?thesis
    apply (intro conjI)
    apply (rule sp)
    apply (rule two_step_queries(2))
    apply (rule blank)
    apply (rule two_step_queries(3))
    apply (rule pubg)
    apply (simp only: ex pubg)
    apply (rule cards_title_price(1))
    apply (rule len(1))
    apply (rule len(2))
    apply (rule card_prices(1))
    apply (rule pubg_c)
    apply (rule titles(1))
    apply (rule titles(2))
    apply (rule cards_title_price(2))
    apply (rule len(3))
    apply (rule short_c)
    apply (rule cards_title_price(3))
    apply (rule priceless_c)
    apply (rule cards_title_price(4))
    apply (rule card_prices(2))
    apply (rule free_c)
    apply (rule text_card_parts(1))
    apply (rule text_card_parts(2))
    apply (rule text_card_parts(3))
    apply (rule text_card_parts(4))
    apply (rule text_tp)
    apply (rule text_c)
    apply (rule four)
    done
qed

subsection \<open>The index bound of the container loop\<close>

lemma forEach_containers_beyond:
  "idx > 50 \<Longrightarrow> forEach_containers pf config u d els idx res = res"
  by (induction els arbitrary: idx) auto

lemma forEach_containers_replicate:
  "inpage_container pf config u d el = Inr (Some item) \<Longrightarrow> idx + n \<le> 51 \<Longrightarrow>
     forEach_containers pf config u d (replicate n el @ rest) idx res
       = forEach_containers pf config u d rest (idx + n) (res @ replicate n item)"
proof (induction n arbitrary: idx res)
  case 0
  then show ?case by simp
next
  case (Suc n)
  from Suc.prems have "forEach_containers pf config u d (replicate (Suc n) el @ rest) idx res
      = forEach_containers pf config u d (replicate n el @ rest) (Suc idx) (res @ [item])"
    by simp
  also have "\<dots> = forEach_containers pf config u d rest (Suc idx + n) ((res @ [item]) @ replicate n item)"
    using Suc.prems by (intro Suc.IH) auto
  finally show ?case
    by (simp add: replicate_app_Cons_same)
qed

text \<open>
  The guard of the loop is \<open>index > 50\<close>, so the containers of index 0 to 50 are handled:
  of 60 priced cards, 51 become items.
\<close>

lemma forEach_containers_handles_51:
  "forEach_containers ascii_platform shop_config (js ''https://shop.example/pubg'') (js ''shop.example'')
     (replicate 60 pubg_card) 0 [] = replicate 51 priced_item"
proof -
  have "replicate 60 pubg_card = replicate 51 pubg_card @ replicate 9 pubg_card"
    by (simp add: replicate_add [symmetric])
  then show ?thesis
    using forEach_containers_replicate [OF pubg_card_item, of 0 51 "replicate 9 pubg_card" "[]"]
    by (simp add: forEach_containers_beyond)
qed

end
